theory Spec2Isabelle
  imports Complex_Main "HOL-Library.Word"
begin

section \<open>Numbers\<close>

text \<open>
  The program computes with JavaScript numbers.  The embedding takes them as mathematical
  reals: rounding of IEEE doubles and of the Float32Array stores is not modelled.  The three
  fields that the program itself initialises with, or tests for, a non-finite value
  (\<open>rootNote\<close>, \<open>bpmSmooth\<close>, \<open>beatInterval\<close>) carry a JavaScript number that may also be
  NaN or an infinity.  Signed zero is not modelled: a zero divisor counts as +0.
\<close>

datatype jsnum = Num real | PosInf | NegInf | NaN

fun js_isFinite :: "jsnum \<Rightarrow> bool" where
  "js_isFinite (Num x) = True"
| "js_isFinite PosInf = False"
| "js_isFinite NegInf = False"
| "js_isFinite NaN = False"

fun js_neg :: "jsnum \<Rightarrow> jsnum" where
  "js_neg (Num x) = Num (- x)"
| "js_neg PosInf = NegInf"
| "js_neg NegInf = PosInf"
| "js_neg NaN = NaN"

fun js_add :: "jsnum \<Rightarrow> jsnum \<Rightarrow> jsnum" where
  "js_add (Num x) (Num y) = Num (x + y)"
| "js_add NaN b = NaN"
| "js_add a NaN = NaN"
| "js_add PosInf NegInf = NaN"
| "js_add NegInf PosInf = NaN"
| "js_add PosInf b = PosInf"
| "js_add NegInf b = NegInf"
| "js_add a PosInf = PosInf"
| "js_add a NegInf = NegInf"

definition js_sub :: "jsnum \<Rightarrow> jsnum \<Rightarrow> jsnum" where
  "js_sub a b = js_add a (js_neg b)"

fun js_sign_inf :: "bool \<Rightarrow> jsnum" where
  "js_sign_inf True = PosInf"
| "js_sign_inf False = NegInf"

fun js_mul :: "jsnum \<Rightarrow> jsnum \<Rightarrow> jsnum" where
  "js_mul (Num x) (Num y) = Num (x * y)"
| "js_mul NaN b = NaN"
| "js_mul a NaN = NaN"
| "js_mul (Num x) PosInf = (if x = 0 then NaN else js_sign_inf (x > 0))"
| "js_mul (Num x) NegInf = (if x = 0 then NaN else js_sign_inf (x < 0))"
| "js_mul PosInf (Num y) = (if y = 0 then NaN else js_sign_inf (y > 0))"
| "js_mul NegInf (Num y) = (if y = 0 then NaN else js_sign_inf (y < 0))"
| "js_mul PosInf PosInf = PosInf"
| "js_mul PosInf NegInf = NegInf"
| "js_mul NegInf PosInf = NegInf"
| "js_mul NegInf NegInf = PosInf"

fun js_div :: "jsnum \<Rightarrow> jsnum \<Rightarrow> jsnum" where
  "js_div (Num x) (Num y) =
     (if y = 0 then (if x = 0 then NaN else js_sign_inf (x > 0)) else Num (x / y))"
| "js_div NaN b = NaN"
| "js_div a NaN = NaN"
| "js_div (Num x) PosInf = Num 0"
| "js_div (Num x) NegInf = Num 0"
| "js_div PosInf (Num y) = js_sign_inf (y \<ge> 0)"
| "js_div NegInf (Num y) = js_sign_inf (y < 0)"
| "js_div PosInf b = NaN"
| "js_div NegInf b = NaN"

text \<open>\<open>Math.max\<close> and \<open>Math.min\<close>: NaN if either argument is NaN.\<close>

fun js_max :: "jsnum \<Rightarrow> jsnum \<Rightarrow> jsnum" where
  "js_max (Num x) (Num y) = Num (max x y)"
| "js_max NaN b = NaN"
| "js_max a NaN = NaN"
| "js_max PosInf b = PosInf"
| "js_max a PosInf = PosInf"
| "js_max NegInf b = b"
| "js_max a NegInf = a"

fun js_min :: "jsnum \<Rightarrow> jsnum \<Rightarrow> jsnum" where
  "js_min (Num x) (Num y) = Num (min x y)"
| "js_min NaN b = NaN"
| "js_min a NaN = NaN"
| "js_min NegInf b = NegInf"
| "js_min a NegInf = NegInf"
| "js_min PosInf b = b"
| "js_min a PosInf = a"

text \<open>\<open>Math.round\<close>: the nearest integer, a half rounding towards plus infinity.\<close>

fun js_round :: "jsnum \<Rightarrow> jsnum" where
  "js_round (Num x) = Num (of_int \<lfloor>x + 1 / 2\<rfloor>)"
| "js_round PosInf = PosInf"
| "js_round NegInf = NegInf"
| "js_round NaN = NaN"

section \<open>utils.js\<close>

text \<open>\<open>clamp = (v, a, b) => Math.min(b, Math.max(a, v))\<close> and
  \<open>lerp = (a, b, t) => a + (b - a) * t\<close>, on reals and on JavaScript numbers.\<close>

definition clamp :: "real \<Rightarrow> real \<Rightarrow> real \<Rightarrow> real" where
  "clamp v a b = min b (max a v)"

definition lerp :: "real \<Rightarrow> real \<Rightarrow> real \<Rightarrow> real" where
  "lerp a b t = a + (b - a) * t"

definition js_clamp :: "jsnum \<Rightarrow> jsnum \<Rightarrow> jsnum \<Rightarrow> jsnum" where
  "js_clamp v a b = js_min b (js_max a v)"

definition js_lerp :: "jsnum \<Rightarrow> jsnum \<Rightarrow> jsnum \<Rightarrow> jsnum" where
  "js_lerp a b t = js_add a (js_mul (js_sub b a) t)"

section \<open>audioAnalyzer.js\<close>

record AudioAnalyzer =
  bands :: nat
  bandValues :: "real list"
  bandPeaks :: "real list"
  bandEdges :: "real list"
  prevBandValues :: "real list"
  onsetDecay :: "real list"
  priv_fftSmooth :: "real list option"
  beatInterval :: jsnum
  lastBeatTime :: real
  beatGate :: real
  bpmSmooth :: jsnum
  beatCount :: nat
  barCount :: nat
  spectralCentroid :: real
  spectralFlux :: real
  energy :: real
  spectralSpread :: real
  spectralRolloff :: real
  spectralFlatness :: real
  onsetKick :: real
  onsetSnare :: real
  onsetHihat :: real
  onsetGlobal :: real
  priv_fluxHist :: "real list"
  priv_fluxKickHist :: "real list"
  priv_fluxSnareHist :: "real list"
  priv_fluxHihatHist :: "real list"
  priv_lastOnsetT :: real
  priv_lastKickT :: real
  priv_lastSnareT :: real
  priv_lastHihatT :: real
  rms :: real
  rmsSmooth :: real
  rmsPeak :: real
  sampleRate :: real
  fftSize :: real
  rootNote :: jsnum
  noteName :: string
  chroma :: "real list"
  priv_noteBins :: "real list"
  smoothSubBass :: real
  smoothBass :: real
  smoothLowMid :: real
  smoothMid :: real
  smoothHighMid :: real
  smoothHigh :: real
  smoothBrilliance :: real
  priv_envSubBass :: real
  priv_envBass :: real
  priv_envMid :: real
  priv_envHigh :: real
  priv_tMs :: real
  transientSharpness :: real
  harmonicRatio :: real

text \<open>\<open>_computeLogBandEdges(numBands, minHz, maxHz)\<close>: \<open>numBands + 1\<close> edges, edge \<open>i\<close> being
  \<open>Math.pow(10, logMin + (i / numBands) * (logMax - logMin))\<close>.\<close>

definition computeLogBandEdges :: "nat \<Rightarrow> real \<Rightarrow> real \<Rightarrow> real list" where
  "computeLogBandEdges numBands minHz maxHz =
     (let logMin = log 10 minHz; logMax = log 10 maxHz
      in map (\<lambda>i. 10 powr (logMin + (real i / real numBands) * (logMax - logMin)))
             [0..<numBands + 1])"


definition AudioAnalyzer_new :: AudioAnalyzer where
  "AudioAnalyzer_new =
     \<lparr> bands = 64,
       bandValues = replicate 64 0,
       bandPeaks = replicate 64 0,
       bandEdges = computeLogBandEdges 64 20 20000,
       prevBandValues = replicate 64 0,
       onsetDecay = replicate 64 0,
       priv_fftSmooth = None,
       beatInterval = Num 500,
       lastBeatTime = 0,
       beatGate = 0,
       bpmSmooth = Num 120,
       beatCount = 0,
       barCount = 0,
       spectralCentroid = 0.5,
       spectralFlux = 0,
       energy = 0,
       spectralSpread = 0,
       spectralRolloff = 0,
       spectralFlatness = 0,
       onsetKick = 0,
       onsetSnare = 0,
       onsetHihat = 0,
       onsetGlobal = 0,
       priv_fluxHist = [],
       priv_fluxKickHist = [],
       priv_fluxSnareHist = [],
       priv_fluxHihatHist = [],
       priv_lastOnsetT = 0,
       priv_lastKickT = 0,
       priv_lastSnareT = 0,
       priv_lastHihatT = 0,
       rms = 0,
       rmsSmooth = 0.06,
       rmsPeak = 0,
       sampleRate = 48000,
       fftSize = 8192,
       rootNote = NaN,
       noteName = ''--'',
       chroma = replicate 12 0,
       priv_noteBins = replicate 12 0,
       smoothSubBass = 0,
       smoothBass = 0,
       smoothLowMid = 0,
       smoothMid = 0,
       smoothHighMid = 0,
       smoothHigh = 0,
       smoothBrilliance = 0,
       priv_envSubBass = 0,
       priv_envBass = 0,
       priv_envMid = 0,
       priv_envHigh = 0,
       priv_tMs = 0,
       transientSharpness = 0,
       harmonicRatio = 0 \<rparr>"

definition setFFTInfo :: "real \<Rightarrow> real \<Rightarrow> AudioAnalyzer \<Rightarrow> AudioAnalyzer" where
  "setFFTInfo fftSize' sampleRate' s =
     s\<lparr> fftSize := fftSize',
        sampleRate := sampleRate',
        bandEdges := computeLogBandEdges (bands s) 20 (min 20000 (sampleRate' / 2)) \<rparr>"

text \<open>\<open>_median\<close>: 0 on the empty array, else the linear interpolation between the two middle
  elements of the sorted copy.\<close>

definition median :: "real list \<Rightarrow> real" where
  "median arr =
     (if arr = [] then 0
      else let a = sort arr;
               mid = real (length a - 1) * 0.5
           in lerp (a ! nat \<lfloor>mid\<rfloor>) (a ! nat \<lceil>mid\<rceil>) (mid - of_int \<lfloor>mid\<rfloor>))"

definition mad :: "real list \<Rightarrow> real \<Rightarrow> real" where
  "mad arr med = median (map (\<lambda>v. \<bar>v - med\<bar>) arr) + 1 / 1000000"

definition adaptiveThreshold :: "real list \<Rightarrow> real \<Rightarrow> real" where
  "adaptiveThreshold history k = (let med = median history in med + k * mad history med)"

text \<open>\<open>_ensureFftSmooth(n)\<close> allocates a zeroed array when there is none of length \<open>n\<close>.\<close>

definition ensureFftSmooth :: "nat \<Rightarrow> AudioAnalyzer \<Rightarrow> AudioAnalyzer" where
  "ensureFftSmooth n s =
     (case priv_fftSmooth s of
        None \<Rightarrow> s\<lparr>priv_fftSmooth := Some (replicate n 0)\<rparr>
      | Some f \<Rightarrow> if length f \<noteq> n then s\<lparr>priv_fftSmooth := Some (replicate n 0)\<rparr> else s)"

text \<open>The smoothed spectrum as an array; \<open>analyze\<close> reads it only after \<open>ensureFftSmooth\<close>.\<close>

definition fftArr :: "AudioAnalyzer \<Rightarrow> real list" where
  "fftArr s = (case priv_fftSmooth s of None \<Rightarrow> [] | Some f \<Rightarrow> f)"

definition noteNameOf :: "nat \<Rightarrow> string" where
  "noteNameOf pc =
     [''C'', ''C#'', ''D'', ''D#'', ''E'', ''F'', ''F#'', ''G'', ''G#'', ''A'', ''A#'', ''B'']
       ! (pc mod 12)"

subsection \<open>analyze: bin smoothing\<close>

text \<open>One bin of the first loop: the byte as a linear amplitude with exponent 1.2, then the
  adaptive filter (a faster coefficient when the new value is above the smoothed one).\<close>

definition smoothBin :: "real \<Rightarrow> real \<Rightarrow> 8 word \<Rightarrow> real" where
  "smoothBin baseAlpha cur x =
     (let linear = (real (unat x) / 255) powr 1.2;
          a = (if linear > cur then min (baseAlpha * 2.5) 0.7 else baseAlpha)
      in lerp cur linear a)"

definition smoothBins :: "real \<Rightarrow> 8 word list \<Rightarrow> AudioAnalyzer \<Rightarrow> AudioAnalyzer" where
  "smoothBins baseAlpha freqData s =
     s\<lparr>priv_fftSmooth := Some (map2 (smoothBin baseAlpha) (fftArr s) freqData)\<rparr>"

subsection \<open>analyze: logarithmic bands\<close>

text \<open>The inner loop over the bins \<open>startBin..endBin\<close> of one band, and the band's value.\<close>

definition binWeight :: "nat \<Rightarrow> int \<Rightarrow> real" where
  "binWeight N i = 1 + (of_int i / real N) * 0.5"

definition bandValue :: "real list \<Rightarrow> nat \<Rightarrow> real \<Rightarrow> real \<Rightarrow> real \<Rightarrow> real" where
  "bandValue fft N hzPerBin lowHz highHz =
     (let startBin = max 1 \<lfloor>lowHz / hzPerBin\<rfloor>;
          endBin = min (int N - 1) \<lceil>highHz / hzPerBin\<rceil>;
          v = (\<Sum>i\<leftarrow>[startBin..endBin]. fft ! nat i * binWeight N i);
          w = (\<Sum>i\<leftarrow>[startBin..endBin]. binWeight N i)
      in if w > 0 then v / w else 0)"

record band_sums =
  sumEnergy :: real
  sumCentroid :: real
  sumCentroidWeight :: real
  geoMean :: real
  arithmeticMean :: real

definition bandBody :: "nat \<Rightarrow> real \<Rightarrow> nat \<Rightarrow> band_sums \<times> AudioAnalyzer \<Rightarrow> band_sums \<times> AudioAnalyzer" where
  "bandBody N hzPerBin b = (\<lambda>(a, s).
     let lowHz = bandEdges s ! b;
         highHz = bandEdges s ! (b + 1);
         val = bandValue (fftArr s) N hzPerBin lowHz highHz
     in (a\<lparr> sumCentroid := sumCentroid a + (real b / real (bands s)) * val,
            sumCentroidWeight := sumCentroidWeight a + val,
            sumEnergy := sumEnergy a + val * val,
            arithmeticMean := arithmeticMean a + val,
            geoMean := geoMean a + (if val > 0.001 then ln (val + 0.001) else ln 0.001) \<rparr>,
         s\<lparr> bandValues := (bandValues s)[b := val],
            bandPeaks := (bandPeaks s)[b := max (bandPeaks s ! b * 0.97) val] \<rparr>))"

definition bandLoop :: "nat \<Rightarrow> real \<Rightarrow> AudioAnalyzer \<Rightarrow> band_sums \<times> AudioAnalyzer" where
  "bandLoop N hzPerBin s =
     fold (bandBody N hzPerBin) [0..<bands s]
       (\<lparr> sumEnergy = 0, sumCentroid = 0, sumCentroidWeight = 0, geoMean = 0, arithmeticMean = 0 \<rparr>, s)"

definition spectralStage :: "nat \<Rightarrow> real \<Rightarrow> AudioAnalyzer \<Rightarrow> AudioAnalyzer" where
  "spectralStage N hzPerBin s =
     (let (a, s1) = bandLoop N hzPerBin s;
          s2 = s1\<lparr>spectralCentroid :=
                  (if sumCentroidWeight a > 1 / 1000000 then sumCentroid a / sumCentroidWeight a
                   else 0.5)\<rparr>;
          arithmeticMean' = arithmeticMean a / real (bands s2);
          geoMean' = exp (geoMean a / real (bands s2))
      in s2\<lparr>spectralFlatness :=
              (if arithmeticMean' > 0.001 then geoMean' / arithmeticMean' else 0)\<rparr>)"

subsection \<open>analyze: spectral flux\<close>

record fluxes =
  flux :: real
  fluxKick :: real
  fluxSnare :: real
  fluxHihat :: real

text \<open>The frequency-specific branch of the flux loop, an \<open>else if\<close> chain on the band's centre
  frequency \<open>hz\<close>: at most one of the three sub-sums takes the band's squared rectified delta.\<close>

definition fluxAccum :: "real \<Rightarrow> real \<Rightarrow> fluxes \<Rightarrow> fluxes" where
  "fluxAccum hz rectified f =
     (let f1 = f\<lparr>flux := flux f + rectified\<rparr>
      in if hz < 150 then f1\<lparr>fluxKick := fluxKick f1 + rectified * 2.0\<rparr>
         else if hz \<ge> 150 \<and> hz < 400 then f1\<lparr>fluxKick := fluxKick f1 + rectified * 0.5\<rparr>
         else if hz \<ge> 200 \<and> hz < 2000 then f1\<lparr>fluxSnare := fluxSnare f1 + rectified\<rparr>
         else if hz \<ge> 4000 then f1\<lparr>fluxHihat := fluxHihat f1 + rectified * 1.5\<rparr>
         else f1)"

definition fluxBody :: "nat \<Rightarrow> fluxes \<times> AudioAnalyzer \<Rightarrow> fluxes \<times> AudioAnalyzer" where
  "fluxBody b = (\<lambda>(f, s).
     let dv = bandValues s ! b - prevBandValues s ! b;
         pos = max 0 dv;
         rectified = pos * pos;
         hz = (bandEdges s ! b + bandEdges s ! (b + 1)) / 2
     in (fluxAccum hz rectified f,
         s\<lparr> onsetDecay := (onsetDecay s)[b := max (onsetDecay s ! b * 0.82) (clamp (pos * 2.8) 0 1)],
            prevBandValues := (prevBandValues s)[b := bandValues s ! b] \<rparr>))"

definition fluxLoop :: "AudioAnalyzer \<Rightarrow> fluxes \<times> AudioAnalyzer" where
  "fluxLoop s =
     (let (f, s1) = fold fluxBody [0..<bands s]
                      (\<lparr> flux = 0, fluxKick = 0, fluxSnare = 0, fluxHihat = 0 \<rparr>, s)
      in (\<lparr> flux = sqrt (flux f), fluxKick = sqrt (fluxKick f),
            fluxSnare = sqrt (fluxSnare f), fluxHihat = sqrt (fluxHihat f) \<rparr>, s1))"

definition pushHist :: "real list \<Rightarrow> real \<Rightarrow> nat \<Rightarrow> real list" where
  "pushHist arr v maxLen = (let a = arr @ [v] in if length a > maxLen then tl a else a)"

definition pushHists :: "fluxes \<Rightarrow> AudioAnalyzer \<Rightarrow> AudioAnalyzer" where
  "pushHists f s =
     s\<lparr> priv_fluxHist := pushHist (priv_fluxHist s) (flux f) 60,
        priv_fluxKickHist := pushHist (priv_fluxKickHist s) (fluxKick f) 50,
        priv_fluxSnareHist := pushHist (priv_fluxSnareHist s) (fluxSnare f) 50,
        priv_fluxHihatHist := pushHist (priv_fluxHihatHist s) (fluxHihat f) 40 \<rparr>"


subsection \<open>analyze: onset detection\<close>

text \<open>\<open>trigOnset(v, thr, ref, cooldown, sensitivity)\<close>: the channel fires when its flux is above
  its threshold and its cooldown has elapsed; it then records the time in \<open>this[ref]\<close> and
  returns the clamped strength.  The result is the strength and the new value of \<open>this[ref]\<close>.\<close>

definition onsetFires :: "real \<Rightarrow> real \<Rightarrow> real \<Rightarrow> real \<Rightarrow> real \<Rightarrow> bool" where
  "onsetFires now v thr lastT cooldown = (v > thr \<and> (now - lastT) > cooldown)"

definition trigOnset :: "real \<Rightarrow> real \<Rightarrow> real \<Rightarrow> real \<Rightarrow> real \<Rightarrow> real \<Rightarrow> real \<times> real" where
  "trigOnset now v thr lastT cooldown sensitivity =
     (if onsetFires now v thr lastT cooldown
      then (clamp ((v / thr - 1.0) * sensitivity) 0.5 1.5, now)
      else (0.0, lastT))"

record onsets =
  gOn :: real
  kOn :: real
  sOn :: real
  hOn :: real

definition detectOnsets :: "fluxes \<Rightarrow> real \<Rightarrow> AudioAnalyzer \<Rightarrow> onsets \<times> AudioAnalyzer" where
  "detectOnsets f now s =
     (let (g, tg) = trigOnset now (flux f) (adaptiveThreshold (priv_fluxHist s) 2.2)
                      (priv_lastOnsetT s) 80 2.4;
          (k, tk) = trigOnset now (fluxKick f) (adaptiveThreshold (priv_fluxKickHist s) 2.0)
                      (priv_lastKickT s) 150 3.0;
          (sn, ts) = trigOnset now (fluxSnare f) (adaptiveThreshold (priv_fluxSnareHist s) 2.2)
                      (priv_lastSnareT s) 100 2.4;
          (h, th) = trigOnset now (fluxHihat f) (adaptiveThreshold (priv_fluxHihatHist s) 2.5)
                      (priv_lastHihatT s) 50 2.4
      in (\<lparr> gOn = g, kOn = k, sOn = sn, hOn = h \<rparr>,
          s\<lparr> priv_lastOnsetT := tg, priv_lastKickT := tk,
             priv_lastSnareT := ts, priv_lastHihatT := th \<rparr>))"

text \<open>The decaying onset envelopes, the clamped flux and the transient sharpness.\<close>

definition onsetEnvelopes :: "onsets \<Rightarrow> fluxes \<Rightarrow> AudioAnalyzer \<Rightarrow> AudioAnalyzer" where
  "onsetEnvelopes on f s =
     (let s1 = s\<lparr> onsetGlobal := max (gOn on) (onsetGlobal s * 0.88),
                  onsetKick := max (kOn on) (onsetKick s * 0.78),
                  onsetSnare := max (sOn on) (onsetSnare s * 0.82),
                  onsetHihat := max (hOn on) (onsetHihat s * 0.90),
                  spectralFlux := clamp (flux f * 0.8) 0 2.5 \<rparr>
      in s1\<lparr> transientSharpness :=
               clamp (onsetKick s1 * 1.2 + onsetSnare s1 * 0.8 + onsetHihat s1 * 0.5
                        + onsetGlobal s1 * 0.3) 0 2.0 \<rparr>)"

subsection \<open>analyze: RMS and envelopes\<close>

definition sampleOf :: "8 word \<Rightarrow> real" where
  "sampleOf x = (real (unat x) - 128) / 128"

definition rmsBody :: "8 word list \<Rightarrow> nat \<Rightarrow> real \<times> nat \<Rightarrow> real \<times> nat" where
  "rmsBody timeData i = (\<lambda>(sum, zeroCrossings).
     let sample = sampleOf (timeData ! i);
         sum' = sum + sample * sample
     in if i > 0
        then (let prev = sampleOf (timeData ! (i - 1))
              in if (sample \<ge> 0 \<and> prev < 0) \<or> (sample < 0 \<and> prev \<ge> 0)
                 then (sum', zeroCrossings + 1) else (sum', zeroCrossings))
        else (sum', zeroCrossings))"

definition rmsStage :: "8 word list option \<Rightarrow> AudioAnalyzer \<Rightarrow> AudioAnalyzer" where
  "rmsStage timeData s =
     (case timeData of
        None \<Rightarrow> s
      | Some td \<Rightarrow>
          if td = [] then s
          else let (sum, zeroCrossings) = fold (rmsBody td) [0..<length td] (0, 0)
               in s\<lparr> rms := sqrt (sum / real (length td)),
                     harmonicRatio := clamp (real zeroCrossings / real (length td) * 50) 0 1 \<rparr>)"

definition rmsEnvelope :: "real \<Rightarrow> AudioAnalyzer \<Rightarrow> AudioAnalyzer" where
  "rmsEnvelope dt s =
     (let attackTime = 0.005; releaseTime = 0.15;
          attackCoeff = 1 - exp (- dt / attackTime);
          releaseCoeff = 1 - exp (- dt / releaseTime);
          envCoeff = (if rms s > rmsSmooth s then attackCoeff else releaseCoeff);
          s1 = s\<lparr>rmsSmooth := rmsSmooth s + (rms s - rmsSmooth s) * envCoeff\<rparr>
      in s1\<lparr>rmsPeak := max (rmsPeak s1 * 0.9995) (rmsSmooth s1)\<rparr>)"

definition computeBandEnergy :: "AudioAnalyzer \<Rightarrow> nat \<Rightarrow> nat \<Rightarrow> real" where
  "computeBandEnergy s startBand endBand =
     (\<Sum>i\<leftarrow>[startBand..<min (endBand + 1) (bands s)]. bandValues s ! i)
       / (real endBand - real startBand + 1)"

definition updateEnv :: "real \<Rightarrow> real \<Rightarrow> real \<Rightarrow> real \<Rightarrow> real" where
  "updateEnv current target attack release =
     (let coeff = (if target > current then attack else release)
      in current + (target - current) * coeff)"

definition bandEnvelopes :: "real \<Rightarrow> AudioAnalyzer \<Rightarrow> AudioAnalyzer" where
  "bandEnvelopes dt s =
     (let rawSubBass = computeBandEnergy s 0 3;
          rawBass = computeBandEnergy s 4 8;
          rawLowMid = computeBandEnergy s 9 16;
          rawMid = computeBandEnergy s 17 28;
          rawHighMid = computeBandEnergy s 29 40;
          rawHigh = computeBandEnergy s 41 52;
          rawBrilliance = computeBandEnergy s 53 63;
          fastAttack = 1 - 0.001 powr (dt * 12.0);
          medAttack = 1 - 0.001 powr (dt * 6.0);
          slowRelease = 1 - 0.001 powr (dt * 1.5);
          medRelease = 1 - 0.001 powr (dt * 2.5);
          s1 = s\<lparr> smoothSubBass := updateEnv (smoothSubBass s) rawSubBass fastAttack slowRelease,
                  smoothBass := updateEnv (smoothBass s) rawBass fastAttack slowRelease,
                  smoothLowMid := updateEnv (smoothLowMid s) rawLowMid medAttack medRelease,
                  smoothMid := updateEnv (smoothMid s) rawMid medAttack medRelease,
                  smoothHighMid := updateEnv (smoothHighMid s) rawHighMid medAttack medRelease,
                  smoothHigh := updateEnv (smoothHigh s) rawHigh fastAttack medRelease,
                  smoothBrilliance :=
                    updateEnv (smoothBrilliance s) rawBrilliance fastAttack medRelease \<rparr>
      in s1\<lparr> energy :=
               clamp (0.25 * smoothSubBass s1 + 0.30 * smoothBass s1 + 0.15 * smoothLowMid s1
                        + 0.15 * smoothMid s1 + 0.10 * smoothHighMid s1 + 0.05 * smoothHigh s1)
                 0 1.5 \<rparr>)"

subsection \<open>analyze: beat and tempo\<close>

definition beatFires :: "real \<Rightarrow> real \<Rightarrow> AudioAnalyzer \<Rightarrow> bool" where
  "beatFires k now s = (k > 0.3 \<and> (now - lastBeatTime s) > 180 \<and> beatGate s \<le> 0)"

definition beatStage :: "real \<Rightarrow> real \<Rightarrow> real \<Rightarrow> AudioAnalyzer \<Rightarrow> bool \<times> AudioAnalyzer" where
  "beatStage k now dt s =
     (let (isBeat, s4) =
            (if beatFires k now s
             then (let interval = now - lastBeatTime s;
                       s1 = (if lastBeatTime s > 0 \<and> interval > 180 \<and> interval < 2500
                             then (let bi = js_lerp (beatInterval s) (Num interval) (Num 0.25)
                                   in s\<lparr> beatInterval := bi,
                                         bpmSmooth :=
                                           js_lerp (bpmSmooth s) (js_div (Num 60000) bi) (Num 0.15) \<rparr>)
                             else s);
                       s2 = s1\<lparr> lastBeatTime := now, beatCount := beatCount s1 + 1 \<rparr>;
                       s3 = (if beatCount s2 mod 4 = 0 then s2\<lparr>barCount := barCount s2 + 1\<rparr>
                             else s2)
                   in (True, s3\<lparr>beatGate := 100\<rparr>))
             else (False, s))
      in (isBeat, s4\<lparr>beatGate := max 0 (beatGate s4 - dt * 1000)\<rparr>))"

subsection \<open>analyze: chroma\<close>

text \<open>The remainder \<open>%\<close> of JavaScript takes the sign of the dividend.\<close>

definition js_rem :: "int \<Rightarrow> int \<Rightarrow> int" where
  "js_rem a b = sgn a * (\<bar>a\<bar> mod \<bar>b\<bar>)"

definition chromaBody :: "real list \<Rightarrow> real \<Rightarrow> nat \<Rightarrow> real list \<Rightarrow> real list" where
  "chromaBody fft hzPerBin i ch =
     (let freq = real i * hzPerBin
      in if freq > 30 \<and> freq < 4000
         then (let midi = 69 + 12 * log 2 (freq / 440);
                   c = nat (js_rem (js_rem \<lfloor>midi + 1 / 2\<rfloor> 12 + 12) 12)
               in ch[c := ch ! c + fft ! i])
         else ch)"

definition maxBody :: "real list \<Rightarrow> nat \<Rightarrow> real \<times> nat \<Rightarrow> real \<times> nat" where
  "maxBody ch i = (\<lambda>(maxVal, maxIdx). if ch ! i > maxVal then (ch ! i, i) else (maxVal, maxIdx))"

definition chromaStage :: "nat \<Rightarrow> real \<Rightarrow> AudioAnalyzer \<Rightarrow> AudioAnalyzer" where
  "chromaStage N hzPerBin s =
     (case priv_fftSmooth s of
        None \<Rightarrow> s
      | Some fft \<Rightarrow>
          let ch = fold (chromaBody fft hzPerBin) [4..<min 400 N] (replicate (length (chroma s)) 0);
              s1 = s\<lparr>chroma := ch\<rparr>;
              (maxVal, maxIdx) = fold (maxBody ch) [0..<12] (0, 0)
          in if maxVal > 0.1
             then s1\<lparr> rootNote := Num (real maxIdx), noteName := noteNameOf maxIdx \<rparr>
             else s1)"

subsection \<open>analyze\<close>

text \<open>\<open>analyze(freqData, timeData, dt, freqL, freqR, smoothingAlpha)\<close>: the byte spectrum, the
  byte waveform (or none), the tick in seconds and the smoothing factor (0.18 when the caller
  gives none); \<open>freqL\<close> and \<open>freqR\<close> are never read.  The result is the beat flag and the
  analyzer after the call.  The first part of the call, up to the flux histories, is
  \<open>fluxesOf\<close>; it returns the four flux scalars with the analyzer.  No step writes
  \<open>sampleRate\<close> or \<open>fftSize\<close>, so \<open>hzPerBin\<close> has one value throughout the call.\<close>

definition fluxesOf :: "AudioAnalyzer \<Rightarrow> 8 word list \<Rightarrow> real \<Rightarrow> real \<Rightarrow> fluxes \<times> AudioAnalyzer" where
  "fluxesOf s freqData dt smoothingAlpha =
     (let s1 = s\<lparr>priv_tMs := priv_tMs s + dt * 1000\<rparr>;
          N = length freqData;
          s2 = ensureFftSmooth N s1;
          baseAlpha = clamp smoothingAlpha 0.05 0.4;
          hzPerBin = sampleRate s2 / fftSize s2;
          s3 = smoothBins baseAlpha freqData s2;
          s4 = spectralStage N hzPerBin s3;
          (f, s5) = fluxLoop s4
      in (f, pushHists f s5))"

definition analyze ::
  "AudioAnalyzer \<Rightarrow> 8 word list \<Rightarrow> 8 word list option \<Rightarrow> real \<Rightarrow> real \<Rightarrow> bool \<times> AudioAnalyzer" where
  "analyze s freqData timeData dt smoothingAlpha =
     (let (f, s6) = fluxesOf s freqData dt smoothingAlpha;
          N = length freqData;
          hzPerBin = sampleRate s6 / fftSize s6;
          now = priv_tMs s6;
          (on, s7) = detectOnsets f now s6;
          s8 = onsetEnvelopes on f s7;
          s9 = rmsStage timeData s8;
          s10 = rmsEnvelope dt s9;
          s11 = bandEnvelopes dt s10;
          (isBeat, s12) = beatStage (kOn on) now dt s11
      in (isBeat, chromaStage N hzPerBin s12))"

text \<open>\<open>getBPM()\<close>.\<close>

definition getBPM :: "AudioAnalyzer \<Rightarrow> jsnum" where
  "getBPM s =
     js_round (if js_isFinite (bpmSmooth s) then bpmSmooth s
               else js_div (Num 60000) (js_clamp (beatInterval s) (Num 240) (Num 2000)))"

section \<open>motionCoordinator.js\<close>

record MotionCoordinator =
  pulse :: real
  impact :: real
  swell :: real
  breathe :: real
  lowMotion :: real
  midMotion :: real
  highMotion :: real
  scaleSuggestion :: real
  zoomSuggestion :: real
  priv_pulseRaw :: real
  priv_impactRaw :: real
  priv_swellRaw :: real
  priv_lowRaw :: real
  priv_midRaw :: real
  priv_highRaw :: real
  priv_pulseSmooth1 :: real
  priv_pulseSmooth2 :: real
  priv_swellSmooth1 :: real
  priv_swellSmooth2 :: real
  priv_lastBeatTime :: real
  priv_beatLockout :: real
  priv_breathePhase :: real

definition MotionCoordinator_new :: MotionCoordinator where
  "MotionCoordinator_new =
     \<lparr> pulse = 0, impact = 0, swell = 0, breathe = 0,
       lowMotion = 0, midMotion = 0, highMotion = 0,
       scaleSuggestion = 1, zoomSuggestion = 0,
       priv_pulseRaw = 0, priv_impactRaw = 0, priv_swellRaw = 0,
       priv_lowRaw = 0, priv_midRaw = 0, priv_highRaw = 0,
       priv_pulseSmooth1 = 0, priv_pulseSmooth2 = 0,
       priv_swellSmooth1 = 0, priv_swellSmooth2 = 0,
       priv_lastBeatTime = 0, priv_beatLockout = 0, priv_breathePhase = 0 \<rparr>"

text \<open>The condition of the pulse trigger branch of \<open>update\<close>.\<close>

definition pulseTriggers :: "AudioAnalyzer \<Rightarrow> MotionCoordinator \<Rightarrow> bool" where
  "pulseTriggers audio m = (onsetKick audio > 0.4 \<and> priv_beatLockout m \<le> 0)"

text \<open>\<open>audio.getBPM() || 120\<close>: 120 when the tempo is 0 or NaN.  \<open>getBPM\<close> returns no
  infinity (lemma \<open>getBPM_no_infinity\<close> below), so the last case is never taken.\<close>

definition bpmOr120 :: "AudioAnalyzer \<Rightarrow> real" where
  "bpmOr120 audio =
     (case getBPM audio of
        Num r \<Rightarrow> if r = 0 then 120 else r
      | NaN \<Rightarrow> 120
      | _ \<Rightarrow> 120)"

text \<open>\<open>update(audio, dt, musicPhase, smoothness)\<close>; \<open>now\<close> is the reading of
  \<open>performance.now()\<close>, \<open>musicPhase\<close> is never read, and \<open>smoothness\<close> is 0.7 when the
  caller gives none.\<close>

definition update ::
  "real \<Rightarrow> AudioAnalyzer \<Rightarrow> real \<Rightarrow> real \<Rightarrow> MotionCoordinator \<Rightarrow> MotionCoordinator" where
  "update now audio dt smoothness m =
     (let smoothFactor = 0.3 + smoothness * 0.7;
          lerpSlow = dt * (1.5 - smoothFactor * 1.2);
          lerpMed = dt * (4.0 - smoothFactor * 3.0);
          lerpFast = dt * (8.0 - smoothFactor * 5.0);
          beatLockoutTime = 150 + smoothness * 200;
          m1 = (if pulseTriggers audio m
                then m\<lparr> priv_pulseRaw := clamp (onsetKick audio * 0.9) 0.5 1.0,
                        priv_beatLockout := beatLockoutTime,
                        priv_lastBeatTime := now \<rparr>
                else m);
          m2 = m1\<lparr>priv_beatLockout := max 0 (priv_beatLockout m1 - dt * 1000)\<rparr>;
          pulseDecayRate = 0.92 + smoothness * 0.06;
          m3 = m2\<lparr>priv_pulseRaw := priv_pulseRaw m2 * pulseDecayRate\<rparr>;
          m4 = m3\<lparr>priv_pulseSmooth1 := lerp (priv_pulseSmooth1 m3) (priv_pulseRaw m3) lerpFast\<rparr>;
          m5 = m4\<lparr>priv_pulseSmooth2 := lerp (priv_pulseSmooth2 m4) (priv_pulseSmooth1 m4) lerpMed\<rparr>;
          m6 = m5\<lparr>pulse := priv_pulseSmooth2 m5\<rparr>;
          impactInfluence = 1.0 - smoothness * 0.8;
          rawImpact = (onsetSnare audio * 0.5 + onsetHihat audio * 0.3) * impactInfluence;
          m7 = m6\<lparr>priv_impactRaw := max (priv_impactRaw m6 * 0.9) rawImpact\<rparr>;
          m8 = m7\<lparr>impact := lerp (impact m7) (priv_impactRaw m7) lerpFast\<rparr>;
          targetSwell = energy audio * 0.7 + rmsSmooth audio * 0.3;
          m9 = m8\<lparr>priv_swellRaw :=
                    lerp (priv_swellRaw m8) targetSwell (dt * (0.5 - smoothness * 0.35))\<rparr>;
          m10 = m9\<lparr>priv_swellSmooth1 := lerp (priv_swellSmooth1 m9) (priv_swellRaw m9) lerpSlow\<rparr>;
          m11 = m10\<lparr>priv_swellSmooth2 :=
                      lerp (priv_swellSmooth2 m10) (priv_swellSmooth1 m10) lerpSlow\<rparr>;
          m12 = m11\<lparr>swell := priv_swellSmooth2 m11\<rparr>;
          bpm = bpmOr120 audio;
          m13 = m12\<lparr>priv_breathePhase := priv_breathePhase m12 + dt * (bpm / 60) * 0.25\<rparr>;
          m14 = m13\<lparr>breathe :=
                      (sin (priv_breathePhase m13 * pi * 2) * 0.5 + 0.5) * swell m13 * 0.7\<rparr>;
          lowTarget = (smoothSubBass audio + smoothBass audio) * 0.5;
          midTarget = (smoothLowMid audio + smoothMid audio) * 0.5;
          highTarget = (smoothHighMid audio + smoothHigh audio) * 0.5;
          m15 = m14\<lparr> priv_lowRaw := lerp (priv_lowRaw m14) lowTarget lerpMed,
                     priv_midRaw := lerp (priv_midRaw m14) midTarget lerpMed,
                     priv_highRaw := lerp (priv_highRaw m14) highTarget lerpMed \<rparr>;
          m16 = m15\<lparr> lowMotion := lerp (lowMotion m15) (priv_lowRaw m15) lerpSlow,
                     midMotion := lerp (midMotion m15) (priv_midRaw m15) lerpSlow,
                     highMotion := lerp (highMotion m15) (priv_highRaw m15) lerpSlow \<rparr>;
          pulseScale = pulse m16 * (0.2 - smoothness * 0.12);
          swellScale = swell m16 * 0.12;
          breatheScale = breathe m16 * 0.06;
          m17 = m16\<lparr>scaleSuggestion := 1.0 + pulseScale + swellScale + breatheScale\<rparr>;
          pulseZoom = pulse m17 * (0.12 - smoothness * 0.10)
      in m17\<lparr>zoomSuggestion := - pulseZoom + breathe m17 * 0.04\<rparr>)"

text \<open>\<open>getSmoothed(value, extraSmooth = 0.5)\<close>: the default applies when the caller gives no
  second argument.  The result is the returned number and the coordinator after the call.\<close>

definition getSmoothed :: "MotionCoordinator \<Rightarrow> real \<Rightarrow> real option \<Rightarrow> real \<times> MotionCoordinator" where
  "getSmoothed m v extraSmooth =
     (let e = (case extraSmooth of None \<Rightarrow> 0.5 | Some x \<Rightarrow> x)
      in (v * (1.0 - e * 0.5), m))"

subsection \<open>Runs of calls\<close>

text \<open>A call of \<open>analyze\<close> with its arguments, and the analyzer after a sequence of calls.\<close>

record frame =
  fr_freqData :: "8 word list"
  fr_timeData :: "8 word list option"
  fr_dt :: real
  fr_smoothingAlpha :: real

definition analyzeFrame :: "AudioAnalyzer \<Rightarrow> frame \<Rightarrow> bool \<times> AudioAnalyzer" where
  "analyzeFrame s fr =
     analyze s (fr_freqData fr) (fr_timeData fr) (fr_dt fr) (fr_smoothingAlpha fr)"

fun runAnalyze :: "AudioAnalyzer \<Rightarrow> frame list \<Rightarrow> AudioAnalyzer" where
  "runAnalyze s [] = s"
| "runAnalyze s (fr # frs) = runAnalyze (snd (analyzeFrame s fr)) frs"

text \<open>The number of calls of the sequence that returned true (a beat fired).\<close>

fun firedBeats :: "AudioAnalyzer \<Rightarrow> frame list \<Rightarrow> nat" where
  "firedBeats s [] = 0"
| "firedBeats s (fr # frs) =
     (if fst (analyzeFrame s fr) then 1 else 0) + firedBeats (snd (analyzeFrame s fr)) frs"

text \<open>The number of calls of \<open>update\<close>, over a sequence of audio snapshots at a fixed tick and
  smoothness, that took the pulse trigger branch; the clock reading plays no part in it.\<close>

fun pulseTriggerCount :: "real \<Rightarrow> real \<Rightarrow> MotionCoordinator \<Rightarrow> AudioAnalyzer list \<Rightarrow> nat" where
  "pulseTriggerCount dt smoothness m [] = 0"
| "pulseTriggerCount dt smoothness m (audio # audios) =
     (if pulseTriggers audio m then 1 else 0)
       + pulseTriggerCount dt smoothness (update 0 audio dt smoothness m) audios"


section \<open>Notions used by the properties\<close>






text \<open>The value that the band loop of a call computes for band \<open>b\<close>, from the state the loop
  starts with.\<close>

definition bandValueOf :: "nat \<Rightarrow> real \<Rightarrow> AudioAnalyzer \<Rightarrow> nat \<Rightarrow> real" where
  "bandValueOf N hzPerBin s b =
     bandValue (fftArr s) N hzPerBin (bandEdges s ! b) (bandEdges s ! (b + 1))"

text \<open>The analyzer, within a call of \<open>analyze\<close>, after the bins have been smoothed.\<close>

definition binsState :: "AudioAnalyzer \<Rightarrow> 8 word list \<Rightarrow> real \<Rightarrow> real \<Rightarrow> AudioAnalyzer" where
  "binsState s fd d a =
     smoothBins (clamp a 0.05 0.4) fd
       (ensureFftSmooth (length fd) (s\<lparr>priv_tMs := priv_tMs s + d * 1000\<rparr>))"

text \<open>The band arrays have the 64 entries the constructor gives them.\<close>

definition arraysOk :: "AudioAnalyzer \<Rightarrow> bool" where
  "arraysOk s =
     (bands s = 64 \<and> length (bandValues s) = 64 \<and> length (bandPeaks s) = 64)"

text \<open>Frames whose 4096 bins all hold the same byte: a silent one and one at full level, with
  no waveform and the default smoothing factor.\<close>

definition defaultAlpha :: real where
  "defaultAlpha = 0.18"

definition levelFrame :: "8 word \<Rightarrow> real \<Rightarrow> frame" where
  "levelFrame x d =
     \<lparr> fr_freqData = replicate 4096 x, fr_timeData = None, fr_dt = d,
       fr_smoothingAlpha = defaultAlpha \<rparr>"

definition silentFrame :: "real \<Rightarrow> frame" where
  "silentFrame d = levelFrame 0 d"

definition loudFrame :: "real \<Rightarrow> frame" where
  "loudFrame d = levelFrame 255 d"










text \<open>Four silent frames of 50 ms on a fresh analyzer, and then a frame at full level with
  a tick of 0.\<close>

definition quietStart :: AudioAnalyzer where
  "quietStart =
     runAnalyze AudioAnalyzer_new
       [silentFrame 0.05, silentFrame 0.05, silentFrame 0.05, silentFrame 0.05]"

definition afterOnset :: AudioAnalyzer where
  "afterOnset = snd (analyzeFrame quietStart (loudFrame 0))"

text \<open>The beat interval is a positive number and the smoothed tempo is a number.\<close>

definition tempoFinite :: "AudioAnalyzer \<Rightarrow> bool" where
  "tempoFinite s = (\<exists>b x. beatInterval s = Num b \<and> 0 < b \<and> bpmSmooth s = Num x)"






text \<open>The analyzer states: the fresh analyzer, and what \<open>analyze\<close> and \<open>setFFTInfo\<close> make
  of an analyzer state, for any arguments.\<close>

inductive reachable :: "AudioAnalyzer \<Rightarrow> bool" where
  reachable_new: "reachable AudioAnalyzer_new"
| reachable_analyze: "reachable s \<Longrightarrow> reachable (snd (analyze s fd td d a))"
| reachable_setFFTInfo: "reachable s \<Longrightarrow> reachable (setFFTInfo fs sr s)"








section \<open>Properties of the band edges\<close>






section \<open>Properties of getSmoothed\<close>

text \<open>
  Claim C10.  \<open>getSmoothed(value, extraSmooth)\<close> returns \<open>value * (1 - extraSmooth * 0.5)\<close>
  for every value and every \<open>extraSmooth\<close> (0.75 times the value under the default 0.5), and
  the coordinator after the call is the coordinator before it: no field is written.
\<close>

theorem getSmoothed_pure:
  "getSmoothed m v (Some e) = (v * (1 - e * 0.5), m) \<and> getSmoothed m v None = (v * 0.75, m)"
  by (simp add: getSmoothed_def)

section \<open>Which fields each stage of analyze writes\<close>

text \<open>The two loops over the bands write two arrays each and nothing else.\<close>

lemma bandLoop_fold_shape:
  "\<exists>a bv bp. fold (bandBody N h) bs (a0, s) = (a, s\<lparr>bandValues := bv, bandPeaks := bp\<rparr>)"
proof (induction bs arbitrary: a0 s)
  case Nil
  have "s = s\<lparr>bandValues := bandValues s, bandPeaks := bandPeaks s\<rparr>" by simp
  then show ?case by (metis fold_simps(1))
next
  case (Cons b bs)
  obtain a1 bv1 bp1 where 1: "bandBody N h b (a0, s) = (a1, s\<lparr>bandValues := bv1, bandPeaks := bp1\<rparr>)"
    by (simp add: bandBody_def Let_def)
  obtain a bv bp where 2: "fold (bandBody N h) bs (a1, s\<lparr>bandValues := bv1, bandPeaks := bp1\<rparr>)
      = (a, s\<lparr>bandValues := bv1, bandPeaks := bp1\<rparr>\<lparr>bandValues := bv, bandPeaks := bp\<rparr>)"
    using Cons.IH by blast
  show ?case using 1 2 by simp blast
qed

lemma bandLoop_shape:
  "\<exists>a bv bp. bandLoop N h s = (a, s\<lparr>bandValues := bv, bandPeaks := bp\<rparr>)"
  unfolding bandLoop_def by (rule bandLoop_fold_shape)

lemma fluxLoop_fold_shape:
  "\<exists>f od pv. fold fluxBody bs (f0, s) = (f, s\<lparr>onsetDecay := od, prevBandValues := pv\<rparr>)"
proof (induction bs arbitrary: f0 s)
  case Nil
  have "s = s\<lparr>onsetDecay := onsetDecay s, prevBandValues := prevBandValues s\<rparr>" by simp
  then show ?case by (metis fold_simps(1))
next
  case (Cons b bs)
  obtain f1 od1 pv1 where 1: "fluxBody b (f0, s) = (f1, s\<lparr>onsetDecay := od1, prevBandValues := pv1\<rparr>)"
    by (simp add: fluxBody_def Let_def)
  obtain f od pv where 2: "fold fluxBody bs (f1, s\<lparr>onsetDecay := od1, prevBandValues := pv1\<rparr>)
      = (f, s\<lparr>onsetDecay := od1, prevBandValues := pv1\<rparr>\<lparr>onsetDecay := od, prevBandValues := pv\<rparr>)"
    using Cons.IH by blast
  show ?case using 1 2 by simp blast
qed

lemma fluxLoop_shape:
  "\<exists>f od pv. fluxLoop s = (f, s\<lparr>onsetDecay := od, prevBandValues := pv\<rparr>)"
proof -
  obtain f od pv where "fold fluxBody [0..<bands s]
       (\<lparr> flux = 0, fluxKick = 0, fluxSnare = 0, fluxHihat = 0 \<rparr>, s)
     = (f, s\<lparr>onsetDecay := od, prevBandValues := pv\<rparr>)"
    using fluxLoop_fold_shape by blast
  then show ?thesis by (simp add: fluxLoop_def) blast
qed


lemma ensureFftSmooth_frame [simp]:
  "bands (ensureFftSmooth n s) = bands s"
  "bandValues (ensureFftSmooth n s) = bandValues s"
  "bandPeaks (ensureFftSmooth n s) = bandPeaks s"
  "bandEdges (ensureFftSmooth n s) = bandEdges s"
  "prevBandValues (ensureFftSmooth n s) = prevBandValues s"
  "onsetDecay (ensureFftSmooth n s) = onsetDecay s"
  "beatInterval (ensureFftSmooth n s) = beatInterval s"
  "lastBeatTime (ensureFftSmooth n s) = lastBeatTime s"
  "beatGate (ensureFftSmooth n s) = beatGate s"
  "bpmSmooth (ensureFftSmooth n s) = bpmSmooth s"
  "beatCount (ensureFftSmooth n s) = beatCount s"
  "barCount (ensureFftSmooth n s) = barCount s"
  "spectralCentroid (ensureFftSmooth n s) = spectralCentroid s"
  "spectralFlux (ensureFftSmooth n s) = spectralFlux s"
  "energy (ensureFftSmooth n s) = energy s"
  "spectralSpread (ensureFftSmooth n s) = spectralSpread s"
  "spectralRolloff (ensureFftSmooth n s) = spectralRolloff s"
  "spectralFlatness (ensureFftSmooth n s) = spectralFlatness s"
  "onsetKick (ensureFftSmooth n s) = onsetKick s"
  "onsetSnare (ensureFftSmooth n s) = onsetSnare s"
  "onsetHihat (ensureFftSmooth n s) = onsetHihat s"
  "onsetGlobal (ensureFftSmooth n s) = onsetGlobal s"
  "priv_fluxHist (ensureFftSmooth n s) = priv_fluxHist s"
  "priv_fluxKickHist (ensureFftSmooth n s) = priv_fluxKickHist s"
  "priv_fluxSnareHist (ensureFftSmooth n s) = priv_fluxSnareHist s"
  "priv_fluxHihatHist (ensureFftSmooth n s) = priv_fluxHihatHist s"
  "priv_lastOnsetT (ensureFftSmooth n s) = priv_lastOnsetT s"
  "priv_lastKickT (ensureFftSmooth n s) = priv_lastKickT s"
  "priv_lastSnareT (ensureFftSmooth n s) = priv_lastSnareT s"
  "priv_lastHihatT (ensureFftSmooth n s) = priv_lastHihatT s"
  "rms (ensureFftSmooth n s) = rms s"
  "rmsSmooth (ensureFftSmooth n s) = rmsSmooth s"
  "rmsPeak (ensureFftSmooth n s) = rmsPeak s"
  "sampleRate (ensureFftSmooth n s) = sampleRate s"
  "fftSize (ensureFftSmooth n s) = fftSize s"
  "rootNote (ensureFftSmooth n s) = rootNote s"
  "noteName (ensureFftSmooth n s) = noteName s"
  "chroma (ensureFftSmooth n s) = chroma s"
  "priv_noteBins (ensureFftSmooth n s) = priv_noteBins s"
  "smoothSubBass (ensureFftSmooth n s) = smoothSubBass s"
  "smoothBass (ensureFftSmooth n s) = smoothBass s"
  "smoothLowMid (ensureFftSmooth n s) = smoothLowMid s"
  "smoothMid (ensureFftSmooth n s) = smoothMid s"
  "smoothHighMid (ensureFftSmooth n s) = smoothHighMid s"
  "smoothHigh (ensureFftSmooth n s) = smoothHigh s"
  "smoothBrilliance (ensureFftSmooth n s) = smoothBrilliance s"
  "priv_envSubBass (ensureFftSmooth n s) = priv_envSubBass s"
  "priv_envBass (ensureFftSmooth n s) = priv_envBass s"
  "priv_envMid (ensureFftSmooth n s) = priv_envMid s"
  "priv_envHigh (ensureFftSmooth n s) = priv_envHigh s"
  "priv_tMs (ensureFftSmooth n s) = priv_tMs s"
  "transientSharpness (ensureFftSmooth n s) = transientSharpness s"
  "harmonicRatio (ensureFftSmooth n s) = harmonicRatio s"
  by (simp_all add: ensureFftSmooth_def split: option.split)

lemma smoothBins_frame [simp]:
  "bands (smoothBins al fd s) = bands s"
  "bandValues (smoothBins al fd s) = bandValues s"
  "bandPeaks (smoothBins al fd s) = bandPeaks s"
  "bandEdges (smoothBins al fd s) = bandEdges s"
  "prevBandValues (smoothBins al fd s) = prevBandValues s"
  "onsetDecay (smoothBins al fd s) = onsetDecay s"
  "beatInterval (smoothBins al fd s) = beatInterval s"
  "lastBeatTime (smoothBins al fd s) = lastBeatTime s"
  "beatGate (smoothBins al fd s) = beatGate s"
  "bpmSmooth (smoothBins al fd s) = bpmSmooth s"
  "beatCount (smoothBins al fd s) = beatCount s"
  "barCount (smoothBins al fd s) = barCount s"
  "spectralCentroid (smoothBins al fd s) = spectralCentroid s"
  "spectralFlux (smoothBins al fd s) = spectralFlux s"
  "energy (smoothBins al fd s) = energy s"
  "spectralSpread (smoothBins al fd s) = spectralSpread s"
  "spectralRolloff (smoothBins al fd s) = spectralRolloff s"
  "spectralFlatness (smoothBins al fd s) = spectralFlatness s"
  "onsetKick (smoothBins al fd s) = onsetKick s"
  "onsetSnare (smoothBins al fd s) = onsetSnare s"
  "onsetHihat (smoothBins al fd s) = onsetHihat s"
  "onsetGlobal (smoothBins al fd s) = onsetGlobal s"
  "priv_fluxHist (smoothBins al fd s) = priv_fluxHist s"
  "priv_fluxKickHist (smoothBins al fd s) = priv_fluxKickHist s"
  "priv_fluxSnareHist (smoothBins al fd s) = priv_fluxSnareHist s"
  "priv_fluxHihatHist (smoothBins al fd s) = priv_fluxHihatHist s"
  "priv_lastOnsetT (smoothBins al fd s) = priv_lastOnsetT s"
  "priv_lastKickT (smoothBins al fd s) = priv_lastKickT s"
  "priv_lastSnareT (smoothBins al fd s) = priv_lastSnareT s"
  "priv_lastHihatT (smoothBins al fd s) = priv_lastHihatT s"
  "rms (smoothBins al fd s) = rms s"
  "rmsSmooth (smoothBins al fd s) = rmsSmooth s"
  "rmsPeak (smoothBins al fd s) = rmsPeak s"
  "sampleRate (smoothBins al fd s) = sampleRate s"
  "fftSize (smoothBins al fd s) = fftSize s"
  "rootNote (smoothBins al fd s) = rootNote s"
  "noteName (smoothBins al fd s) = noteName s"
  "chroma (smoothBins al fd s) = chroma s"
  "priv_noteBins (smoothBins al fd s) = priv_noteBins s"
  "smoothSubBass (smoothBins al fd s) = smoothSubBass s"
  "smoothBass (smoothBins al fd s) = smoothBass s"
  "smoothLowMid (smoothBins al fd s) = smoothLowMid s"
  "smoothMid (smoothBins al fd s) = smoothMid s"
  "smoothHighMid (smoothBins al fd s) = smoothHighMid s"
  "smoothHigh (smoothBins al fd s) = smoothHigh s"
  "smoothBrilliance (smoothBins al fd s) = smoothBrilliance s"
  "priv_envSubBass (smoothBins al fd s) = priv_envSubBass s"
  "priv_envBass (smoothBins al fd s) = priv_envBass s"
  "priv_envMid (smoothBins al fd s) = priv_envMid s"
  "priv_envHigh (smoothBins al fd s) = priv_envHigh s"
  "priv_tMs (smoothBins al fd s) = priv_tMs s"
  "transientSharpness (smoothBins al fd s) = transientSharpness s"
  "harmonicRatio (smoothBins al fd s) = harmonicRatio s"
  by (simp_all add: smoothBins_def)

lemma spectralStage_frame [simp]:
  "bands (spectralStage N h s) = bands s"
  "bandEdges (spectralStage N h s) = bandEdges s"
  "prevBandValues (spectralStage N h s) = prevBandValues s"
  "onsetDecay (spectralStage N h s) = onsetDecay s"
  "priv_fftSmooth (spectralStage N h s) = priv_fftSmooth s"
  "beatInterval (spectralStage N h s) = beatInterval s"
  "lastBeatTime (spectralStage N h s) = lastBeatTime s"
  "beatGate (spectralStage N h s) = beatGate s"
  "bpmSmooth (spectralStage N h s) = bpmSmooth s"
  "beatCount (spectralStage N h s) = beatCount s"
  "barCount (spectralStage N h s) = barCount s"
  "spectralFlux (spectralStage N h s) = spectralFlux s"
  "energy (spectralStage N h s) = energy s"
  "spectralSpread (spectralStage N h s) = spectralSpread s"
  "spectralRolloff (spectralStage N h s) = spectralRolloff s"
  "onsetKick (spectralStage N h s) = onsetKick s"
  "onsetSnare (spectralStage N h s) = onsetSnare s"
  "onsetHihat (spectralStage N h s) = onsetHihat s"
  "onsetGlobal (spectralStage N h s) = onsetGlobal s"
  "priv_fluxHist (spectralStage N h s) = priv_fluxHist s"
  "priv_fluxKickHist (spectralStage N h s) = priv_fluxKickHist s"
  "priv_fluxSnareHist (spectralStage N h s) = priv_fluxSnareHist s"
  "priv_fluxHihatHist (spectralStage N h s) = priv_fluxHihatHist s"
  "priv_lastOnsetT (spectralStage N h s) = priv_lastOnsetT s"
  "priv_lastKickT (spectralStage N h s) = priv_lastKickT s"
  "priv_lastSnareT (spectralStage N h s) = priv_lastSnareT s"
  "priv_lastHihatT (spectralStage N h s) = priv_lastHihatT s"
  "rms (spectralStage N h s) = rms s"
  "rmsSmooth (spectralStage N h s) = rmsSmooth s"
  "rmsPeak (spectralStage N h s) = rmsPeak s"
  "sampleRate (spectralStage N h s) = sampleRate s"
  "fftSize (spectralStage N h s) = fftSize s"
  "rootNote (spectralStage N h s) = rootNote s"
  "noteName (spectralStage N h s) = noteName s"
  "chroma (spectralStage N h s) = chroma s"
  "priv_noteBins (spectralStage N h s) = priv_noteBins s"
  "smoothSubBass (spectralStage N h s) = smoothSubBass s"
  "smoothBass (spectralStage N h s) = smoothBass s"
  "smoothLowMid (spectralStage N h s) = smoothLowMid s"
  "smoothMid (spectralStage N h s) = smoothMid s"
  "smoothHighMid (spectralStage N h s) = smoothHighMid s"
  "smoothHigh (spectralStage N h s) = smoothHigh s"
  "smoothBrilliance (spectralStage N h s) = smoothBrilliance s"
  "priv_envSubBass (spectralStage N h s) = priv_envSubBass s"
  "priv_envBass (spectralStage N h s) = priv_envBass s"
  "priv_envMid (spectralStage N h s) = priv_envMid s"
  "priv_envHigh (spectralStage N h s) = priv_envHigh s"
  "priv_tMs (spectralStage N h s) = priv_tMs s"
  "transientSharpness (spectralStage N h s) = transientSharpness s"
  "harmonicRatio (spectralStage N h s) = harmonicRatio s"
  using bandLoop_shape[of N h s] by (auto simp add: spectralStage_def Let_def split: prod.split)

lemma fluxLoop_frame [simp]:
  "bands (snd (fluxLoop s)) = bands s"
  "bandValues (snd (fluxLoop s)) = bandValues s"
  "bandPeaks (snd (fluxLoop s)) = bandPeaks s"
  "bandEdges (snd (fluxLoop s)) = bandEdges s"
  "priv_fftSmooth (snd (fluxLoop s)) = priv_fftSmooth s"
  "beatInterval (snd (fluxLoop s)) = beatInterval s"
  "lastBeatTime (snd (fluxLoop s)) = lastBeatTime s"
  "beatGate (snd (fluxLoop s)) = beatGate s"
  "bpmSmooth (snd (fluxLoop s)) = bpmSmooth s"
  "beatCount (snd (fluxLoop s)) = beatCount s"
  "barCount (snd (fluxLoop s)) = barCount s"
  "spectralCentroid (snd (fluxLoop s)) = spectralCentroid s"
  "spectralFlux (snd (fluxLoop s)) = spectralFlux s"
  "energy (snd (fluxLoop s)) = energy s"
  "spectralSpread (snd (fluxLoop s)) = spectralSpread s"
  "spectralRolloff (snd (fluxLoop s)) = spectralRolloff s"
  "spectralFlatness (snd (fluxLoop s)) = spectralFlatness s"
  "onsetKick (snd (fluxLoop s)) = onsetKick s"
  "onsetSnare (snd (fluxLoop s)) = onsetSnare s"
  "onsetHihat (snd (fluxLoop s)) = onsetHihat s"
  "onsetGlobal (snd (fluxLoop s)) = onsetGlobal s"
  "priv_fluxHist (snd (fluxLoop s)) = priv_fluxHist s"
  "priv_fluxKickHist (snd (fluxLoop s)) = priv_fluxKickHist s"
  "priv_fluxSnareHist (snd (fluxLoop s)) = priv_fluxSnareHist s"
  "priv_fluxHihatHist (snd (fluxLoop s)) = priv_fluxHihatHist s"
  "priv_lastOnsetT (snd (fluxLoop s)) = priv_lastOnsetT s"
  "priv_lastKickT (snd (fluxLoop s)) = priv_lastKickT s"
  "priv_lastSnareT (snd (fluxLoop s)) = priv_lastSnareT s"
  "priv_lastHihatT (snd (fluxLoop s)) = priv_lastHihatT s"
  "rms (snd (fluxLoop s)) = rms s"
  "rmsSmooth (snd (fluxLoop s)) = rmsSmooth s"
  "rmsPeak (snd (fluxLoop s)) = rmsPeak s"
  "sampleRate (snd (fluxLoop s)) = sampleRate s"
  "fftSize (snd (fluxLoop s)) = fftSize s"
  "rootNote (snd (fluxLoop s)) = rootNote s"
  "noteName (snd (fluxLoop s)) = noteName s"
  "chroma (snd (fluxLoop s)) = chroma s"
  "priv_noteBins (snd (fluxLoop s)) = priv_noteBins s"
  "smoothSubBass (snd (fluxLoop s)) = smoothSubBass s"
  "smoothBass (snd (fluxLoop s)) = smoothBass s"
  "smoothLowMid (snd (fluxLoop s)) = smoothLowMid s"
  "smoothMid (snd (fluxLoop s)) = smoothMid s"
  "smoothHighMid (snd (fluxLoop s)) = smoothHighMid s"
  "smoothHigh (snd (fluxLoop s)) = smoothHigh s"
  "smoothBrilliance (snd (fluxLoop s)) = smoothBrilliance s"
  "priv_envSubBass (snd (fluxLoop s)) = priv_envSubBass s"
  "priv_envBass (snd (fluxLoop s)) = priv_envBass s"
  "priv_envMid (snd (fluxLoop s)) = priv_envMid s"
  "priv_envHigh (snd (fluxLoop s)) = priv_envHigh s"
  "priv_tMs (snd (fluxLoop s)) = priv_tMs s"
  "transientSharpness (snd (fluxLoop s)) = transientSharpness s"
  "harmonicRatio (snd (fluxLoop s)) = harmonicRatio s"
  using fluxLoop_shape[of s] by auto

lemma pushHists_frame [simp]:
  "bands (pushHists f s) = bands s"
  "bandValues (pushHists f s) = bandValues s"
  "bandPeaks (pushHists f s) = bandPeaks s"
  "bandEdges (pushHists f s) = bandEdges s"
  "prevBandValues (pushHists f s) = prevBandValues s"
  "onsetDecay (pushHists f s) = onsetDecay s"
  "priv_fftSmooth (pushHists f s) = priv_fftSmooth s"
  "beatInterval (pushHists f s) = beatInterval s"
  "lastBeatTime (pushHists f s) = lastBeatTime s"
  "beatGate (pushHists f s) = beatGate s"
  "bpmSmooth (pushHists f s) = bpmSmooth s"
  "beatCount (pushHists f s) = beatCount s"
  "barCount (pushHists f s) = barCount s"
  "spectralCentroid (pushHists f s) = spectralCentroid s"
  "spectralFlux (pushHists f s) = spectralFlux s"
  "energy (pushHists f s) = energy s"
  "spectralSpread (pushHists f s) = spectralSpread s"
  "spectralRolloff (pushHists f s) = spectralRolloff s"
  "spectralFlatness (pushHists f s) = spectralFlatness s"
  "onsetKick (pushHists f s) = onsetKick s"
  "onsetSnare (pushHists f s) = onsetSnare s"
  "onsetHihat (pushHists f s) = onsetHihat s"
  "onsetGlobal (pushHists f s) = onsetGlobal s"
  "priv_lastOnsetT (pushHists f s) = priv_lastOnsetT s"
  "priv_lastKickT (pushHists f s) = priv_lastKickT s"
  "priv_lastSnareT (pushHists f s) = priv_lastSnareT s"
  "priv_lastHihatT (pushHists f s) = priv_lastHihatT s"
  "rms (pushHists f s) = rms s"
  "rmsSmooth (pushHists f s) = rmsSmooth s"
  "rmsPeak (pushHists f s) = rmsPeak s"
  "sampleRate (pushHists f s) = sampleRate s"
  "fftSize (pushHists f s) = fftSize s"
  "rootNote (pushHists f s) = rootNote s"
  "noteName (pushHists f s) = noteName s"
  "chroma (pushHists f s) = chroma s"
  "priv_noteBins (pushHists f s) = priv_noteBins s"
  "smoothSubBass (pushHists f s) = smoothSubBass s"
  "smoothBass (pushHists f s) = smoothBass s"
  "smoothLowMid (pushHists f s) = smoothLowMid s"
  "smoothMid (pushHists f s) = smoothMid s"
  "smoothHighMid (pushHists f s) = smoothHighMid s"
  "smoothHigh (pushHists f s) = smoothHigh s"
  "smoothBrilliance (pushHists f s) = smoothBrilliance s"
  "priv_envSubBass (pushHists f s) = priv_envSubBass s"
  "priv_envBass (pushHists f s) = priv_envBass s"
  "priv_envMid (pushHists f s) = priv_envMid s"
  "priv_envHigh (pushHists f s) = priv_envHigh s"
  "priv_tMs (pushHists f s) = priv_tMs s"
  "transientSharpness (pushHists f s) = transientSharpness s"
  "harmonicRatio (pushHists f s) = harmonicRatio s"
  by (simp_all add: pushHists_def)

lemma detectOnsets_frame [simp]:
  "bands (snd (detectOnsets f t s)) = bands s"
  "bandValues (snd (detectOnsets f t s)) = bandValues s"
  "bandPeaks (snd (detectOnsets f t s)) = bandPeaks s"
  "bandEdges (snd (detectOnsets f t s)) = bandEdges s"
  "prevBandValues (snd (detectOnsets f t s)) = prevBandValues s"
  "onsetDecay (snd (detectOnsets f t s)) = onsetDecay s"
  "priv_fftSmooth (snd (detectOnsets f t s)) = priv_fftSmooth s"
  "beatInterval (snd (detectOnsets f t s)) = beatInterval s"
  "lastBeatTime (snd (detectOnsets f t s)) = lastBeatTime s"
  "beatGate (snd (detectOnsets f t s)) = beatGate s"
  "bpmSmooth (snd (detectOnsets f t s)) = bpmSmooth s"
  "beatCount (snd (detectOnsets f t s)) = beatCount s"
  "barCount (snd (detectOnsets f t s)) = barCount s"
  "spectralCentroid (snd (detectOnsets f t s)) = spectralCentroid s"
  "spectralFlux (snd (detectOnsets f t s)) = spectralFlux s"
  "energy (snd (detectOnsets f t s)) = energy s"
  "spectralSpread (snd (detectOnsets f t s)) = spectralSpread s"
  "spectralRolloff (snd (detectOnsets f t s)) = spectralRolloff s"
  "spectralFlatness (snd (detectOnsets f t s)) = spectralFlatness s"
  "onsetKick (snd (detectOnsets f t s)) = onsetKick s"
  "onsetSnare (snd (detectOnsets f t s)) = onsetSnare s"
  "onsetHihat (snd (detectOnsets f t s)) = onsetHihat s"
  "onsetGlobal (snd (detectOnsets f t s)) = onsetGlobal s"
  "priv_fluxHist (snd (detectOnsets f t s)) = priv_fluxHist s"
  "priv_fluxKickHist (snd (detectOnsets f t s)) = priv_fluxKickHist s"
  "priv_fluxSnareHist (snd (detectOnsets f t s)) = priv_fluxSnareHist s"
  "priv_fluxHihatHist (snd (detectOnsets f t s)) = priv_fluxHihatHist s"
  "rms (snd (detectOnsets f t s)) = rms s"
  "rmsSmooth (snd (detectOnsets f t s)) = rmsSmooth s"
  "rmsPeak (snd (detectOnsets f t s)) = rmsPeak s"
  "sampleRate (snd (detectOnsets f t s)) = sampleRate s"
  "fftSize (snd (detectOnsets f t s)) = fftSize s"
  "rootNote (snd (detectOnsets f t s)) = rootNote s"
  "noteName (snd (detectOnsets f t s)) = noteName s"
  "chroma (snd (detectOnsets f t s)) = chroma s"
  "priv_noteBins (snd (detectOnsets f t s)) = priv_noteBins s"
  "smoothSubBass (snd (detectOnsets f t s)) = smoothSubBass s"
  "smoothBass (snd (detectOnsets f t s)) = smoothBass s"
  "smoothLowMid (snd (detectOnsets f t s)) = smoothLowMid s"
  "smoothMid (snd (detectOnsets f t s)) = smoothMid s"
  "smoothHighMid (snd (detectOnsets f t s)) = smoothHighMid s"
  "smoothHigh (snd (detectOnsets f t s)) = smoothHigh s"
  "smoothBrilliance (snd (detectOnsets f t s)) = smoothBrilliance s"
  "priv_envSubBass (snd (detectOnsets f t s)) = priv_envSubBass s"
  "priv_envBass (snd (detectOnsets f t s)) = priv_envBass s"
  "priv_envMid (snd (detectOnsets f t s)) = priv_envMid s"
  "priv_envHigh (snd (detectOnsets f t s)) = priv_envHigh s"
  "priv_tMs (snd (detectOnsets f t s)) = priv_tMs s"
  "transientSharpness (snd (detectOnsets f t s)) = transientSharpness s"
  "harmonicRatio (snd (detectOnsets f t s)) = harmonicRatio s"
  by (simp_all add: detectOnsets_def Let_def split: prod.split)

lemma onsetEnvelopes_frame [simp]:
  "bands (onsetEnvelopes on f s) = bands s"
  "bandValues (onsetEnvelopes on f s) = bandValues s"
  "bandPeaks (onsetEnvelopes on f s) = bandPeaks s"
  "bandEdges (onsetEnvelopes on f s) = bandEdges s"
  "prevBandValues (onsetEnvelopes on f s) = prevBandValues s"
  "onsetDecay (onsetEnvelopes on f s) = onsetDecay s"
  "priv_fftSmooth (onsetEnvelopes on f s) = priv_fftSmooth s"
  "beatInterval (onsetEnvelopes on f s) = beatInterval s"
  "lastBeatTime (onsetEnvelopes on f s) = lastBeatTime s"
  "beatGate (onsetEnvelopes on f s) = beatGate s"
  "bpmSmooth (onsetEnvelopes on f s) = bpmSmooth s"
  "beatCount (onsetEnvelopes on f s) = beatCount s"
  "barCount (onsetEnvelopes on f s) = barCount s"
  "spectralCentroid (onsetEnvelopes on f s) = spectralCentroid s"
  "energy (onsetEnvelopes on f s) = energy s"
  "spectralSpread (onsetEnvelopes on f s) = spectralSpread s"
  "spectralRolloff (onsetEnvelopes on f s) = spectralRolloff s"
  "spectralFlatness (onsetEnvelopes on f s) = spectralFlatness s"
  "priv_fluxHist (onsetEnvelopes on f s) = priv_fluxHist s"
  "priv_fluxKickHist (onsetEnvelopes on f s) = priv_fluxKickHist s"
  "priv_fluxSnareHist (onsetEnvelopes on f s) = priv_fluxSnareHist s"
  "priv_fluxHihatHist (onsetEnvelopes on f s) = priv_fluxHihatHist s"
  "priv_lastOnsetT (onsetEnvelopes on f s) = priv_lastOnsetT s"
  "priv_lastKickT (onsetEnvelopes on f s) = priv_lastKickT s"
  "priv_lastSnareT (onsetEnvelopes on f s) = priv_lastSnareT s"
  "priv_lastHihatT (onsetEnvelopes on f s) = priv_lastHihatT s"
  "rms (onsetEnvelopes on f s) = rms s"
  "rmsSmooth (onsetEnvelopes on f s) = rmsSmooth s"
  "rmsPeak (onsetEnvelopes on f s) = rmsPeak s"
  "sampleRate (onsetEnvelopes on f s) = sampleRate s"
  "fftSize (onsetEnvelopes on f s) = fftSize s"
  "rootNote (onsetEnvelopes on f s) = rootNote s"
  "noteName (onsetEnvelopes on f s) = noteName s"
  "chroma (onsetEnvelopes on f s) = chroma s"
  "priv_noteBins (onsetEnvelopes on f s) = priv_noteBins s"
  "smoothSubBass (onsetEnvelopes on f s) = smoothSubBass s"
  "smoothBass (onsetEnvelopes on f s) = smoothBass s"
  "smoothLowMid (onsetEnvelopes on f s) = smoothLowMid s"
  "smoothMid (onsetEnvelopes on f s) = smoothMid s"
  "smoothHighMid (onsetEnvelopes on f s) = smoothHighMid s"
  "smoothHigh (onsetEnvelopes on f s) = smoothHigh s"
  "smoothBrilliance (onsetEnvelopes on f s) = smoothBrilliance s"
  "priv_envSubBass (onsetEnvelopes on f s) = priv_envSubBass s"
  "priv_envBass (onsetEnvelopes on f s) = priv_envBass s"
  "priv_envMid (onsetEnvelopes on f s) = priv_envMid s"
  "priv_envHigh (onsetEnvelopes on f s) = priv_envHigh s"
  "priv_tMs (onsetEnvelopes on f s) = priv_tMs s"
  "harmonicRatio (onsetEnvelopes on f s) = harmonicRatio s"
  by (simp_all add: onsetEnvelopes_def Let_def)

lemma rmsStage_frame [simp]:
  "bands (rmsStage td s) = bands s"
  "bandValues (rmsStage td s) = bandValues s"
  "bandPeaks (rmsStage td s) = bandPeaks s"
  "bandEdges (rmsStage td s) = bandEdges s"
  "prevBandValues (rmsStage td s) = prevBandValues s"
  "onsetDecay (rmsStage td s) = onsetDecay s"
  "priv_fftSmooth (rmsStage td s) = priv_fftSmooth s"
  "beatInterval (rmsStage td s) = beatInterval s"
  "lastBeatTime (rmsStage td s) = lastBeatTime s"
  "beatGate (rmsStage td s) = beatGate s"
  "bpmSmooth (rmsStage td s) = bpmSmooth s"
  "beatCount (rmsStage td s) = beatCount s"
  "barCount (rmsStage td s) = barCount s"
  "spectralCentroid (rmsStage td s) = spectralCentroid s"
  "spectralFlux (rmsStage td s) = spectralFlux s"
  "energy (rmsStage td s) = energy s"
  "spectralSpread (rmsStage td s) = spectralSpread s"
  "spectralRolloff (rmsStage td s) = spectralRolloff s"
  "spectralFlatness (rmsStage td s) = spectralFlatness s"
  "onsetKick (rmsStage td s) = onsetKick s"
  "onsetSnare (rmsStage td s) = onsetSnare s"
  "onsetHihat (rmsStage td s) = onsetHihat s"
  "onsetGlobal (rmsStage td s) = onsetGlobal s"
  "priv_fluxHist (rmsStage td s) = priv_fluxHist s"
  "priv_fluxKickHist (rmsStage td s) = priv_fluxKickHist s"
  "priv_fluxSnareHist (rmsStage td s) = priv_fluxSnareHist s"
  "priv_fluxHihatHist (rmsStage td s) = priv_fluxHihatHist s"
  "priv_lastOnsetT (rmsStage td s) = priv_lastOnsetT s"
  "priv_lastKickT (rmsStage td s) = priv_lastKickT s"
  "priv_lastSnareT (rmsStage td s) = priv_lastSnareT s"
  "priv_lastHihatT (rmsStage td s) = priv_lastHihatT s"
  "rmsSmooth (rmsStage td s) = rmsSmooth s"
  "rmsPeak (rmsStage td s) = rmsPeak s"
  "sampleRate (rmsStage td s) = sampleRate s"
  "fftSize (rmsStage td s) = fftSize s"
  "rootNote (rmsStage td s) = rootNote s"
  "noteName (rmsStage td s) = noteName s"
  "chroma (rmsStage td s) = chroma s"
  "priv_noteBins (rmsStage td s) = priv_noteBins s"
  "smoothSubBass (rmsStage td s) = smoothSubBass s"
  "smoothBass (rmsStage td s) = smoothBass s"
  "smoothLowMid (rmsStage td s) = smoothLowMid s"
  "smoothMid (rmsStage td s) = smoothMid s"
  "smoothHighMid (rmsStage td s) = smoothHighMid s"
  "smoothHigh (rmsStage td s) = smoothHigh s"
  "smoothBrilliance (rmsStage td s) = smoothBrilliance s"
  "priv_envSubBass (rmsStage td s) = priv_envSubBass s"
  "priv_envBass (rmsStage td s) = priv_envBass s"
  "priv_envMid (rmsStage td s) = priv_envMid s"
  "priv_envHigh (rmsStage td s) = priv_envHigh s"
  "priv_tMs (rmsStage td s) = priv_tMs s"
  "transientSharpness (rmsStage td s) = transientSharpness s"
  by (simp_all add: rmsStage_def Let_def split: option.split prod.split)

lemma rmsEnvelope_frame [simp]:
  "bands (rmsEnvelope d s) = bands s"
  "bandValues (rmsEnvelope d s) = bandValues s"
  "bandPeaks (rmsEnvelope d s) = bandPeaks s"
  "bandEdges (rmsEnvelope d s) = bandEdges s"
  "prevBandValues (rmsEnvelope d s) = prevBandValues s"
  "onsetDecay (rmsEnvelope d s) = onsetDecay s"
  "priv_fftSmooth (rmsEnvelope d s) = priv_fftSmooth s"
  "beatInterval (rmsEnvelope d s) = beatInterval s"
  "lastBeatTime (rmsEnvelope d s) = lastBeatTime s"
  "beatGate (rmsEnvelope d s) = beatGate s"
  "bpmSmooth (rmsEnvelope d s) = bpmSmooth s"
  "beatCount (rmsEnvelope d s) = beatCount s"
  "barCount (rmsEnvelope d s) = barCount s"
  "spectralCentroid (rmsEnvelope d s) = spectralCentroid s"
  "spectralFlux (rmsEnvelope d s) = spectralFlux s"
  "energy (rmsEnvelope d s) = energy s"
  "spectralSpread (rmsEnvelope d s) = spectralSpread s"
  "spectralRolloff (rmsEnvelope d s) = spectralRolloff s"
  "spectralFlatness (rmsEnvelope d s) = spectralFlatness s"
  "onsetKick (rmsEnvelope d s) = onsetKick s"
  "onsetSnare (rmsEnvelope d s) = onsetSnare s"
  "onsetHihat (rmsEnvelope d s) = onsetHihat s"
  "onsetGlobal (rmsEnvelope d s) = onsetGlobal s"
  "priv_fluxHist (rmsEnvelope d s) = priv_fluxHist s"
  "priv_fluxKickHist (rmsEnvelope d s) = priv_fluxKickHist s"
  "priv_fluxSnareHist (rmsEnvelope d s) = priv_fluxSnareHist s"
  "priv_fluxHihatHist (rmsEnvelope d s) = priv_fluxHihatHist s"
  "priv_lastOnsetT (rmsEnvelope d s) = priv_lastOnsetT s"
  "priv_lastKickT (rmsEnvelope d s) = priv_lastKickT s"
  "priv_lastSnareT (rmsEnvelope d s) = priv_lastSnareT s"
  "priv_lastHihatT (rmsEnvelope d s) = priv_lastHihatT s"
  "rms (rmsEnvelope d s) = rms s"
  "sampleRate (rmsEnvelope d s) = sampleRate s"
  "fftSize (rmsEnvelope d s) = fftSize s"
  "rootNote (rmsEnvelope d s) = rootNote s"
  "noteName (rmsEnvelope d s) = noteName s"
  "chroma (rmsEnvelope d s) = chroma s"
  "priv_noteBins (rmsEnvelope d s) = priv_noteBins s"
  "smoothSubBass (rmsEnvelope d s) = smoothSubBass s"
  "smoothBass (rmsEnvelope d s) = smoothBass s"
  "smoothLowMid (rmsEnvelope d s) = smoothLowMid s"
  "smoothMid (rmsEnvelope d s) = smoothMid s"
  "smoothHighMid (rmsEnvelope d s) = smoothHighMid s"
  "smoothHigh (rmsEnvelope d s) = smoothHigh s"
  "smoothBrilliance (rmsEnvelope d s) = smoothBrilliance s"
  "priv_envSubBass (rmsEnvelope d s) = priv_envSubBass s"
  "priv_envBass (rmsEnvelope d s) = priv_envBass s"
  "priv_envMid (rmsEnvelope d s) = priv_envMid s"
  "priv_envHigh (rmsEnvelope d s) = priv_envHigh s"
  "priv_tMs (rmsEnvelope d s) = priv_tMs s"
  "transientSharpness (rmsEnvelope d s) = transientSharpness s"
  "harmonicRatio (rmsEnvelope d s) = harmonicRatio s"
  by (simp_all add: rmsEnvelope_def Let_def)

lemma bandEnvelopes_frame [simp]:
  "bands (bandEnvelopes d s) = bands s"
  "bandValues (bandEnvelopes d s) = bandValues s"
  "bandPeaks (bandEnvelopes d s) = bandPeaks s"
  "bandEdges (bandEnvelopes d s) = bandEdges s"
  "prevBandValues (bandEnvelopes d s) = prevBandValues s"
  "onsetDecay (bandEnvelopes d s) = onsetDecay s"
  "priv_fftSmooth (bandEnvelopes d s) = priv_fftSmooth s"
  "beatInterval (bandEnvelopes d s) = beatInterval s"
  "lastBeatTime (bandEnvelopes d s) = lastBeatTime s"
  "beatGate (bandEnvelopes d s) = beatGate s"
  "bpmSmooth (bandEnvelopes d s) = bpmSmooth s"
  "beatCount (bandEnvelopes d s) = beatCount s"
  "barCount (bandEnvelopes d s) = barCount s"
  "spectralCentroid (bandEnvelopes d s) = spectralCentroid s"
  "spectralFlux (bandEnvelopes d s) = spectralFlux s"
  "spectralSpread (bandEnvelopes d s) = spectralSpread s"
  "spectralRolloff (bandEnvelopes d s) = spectralRolloff s"
  "spectralFlatness (bandEnvelopes d s) = spectralFlatness s"
  "onsetKick (bandEnvelopes d s) = onsetKick s"
  "onsetSnare (bandEnvelopes d s) = onsetSnare s"
  "onsetHihat (bandEnvelopes d s) = onsetHihat s"
  "onsetGlobal (bandEnvelopes d s) = onsetGlobal s"
  "priv_fluxHist (bandEnvelopes d s) = priv_fluxHist s"
  "priv_fluxKickHist (bandEnvelopes d s) = priv_fluxKickHist s"
  "priv_fluxSnareHist (bandEnvelopes d s) = priv_fluxSnareHist s"
  "priv_fluxHihatHist (bandEnvelopes d s) = priv_fluxHihatHist s"
  "priv_lastOnsetT (bandEnvelopes d s) = priv_lastOnsetT s"
  "priv_lastKickT (bandEnvelopes d s) = priv_lastKickT s"
  "priv_lastSnareT (bandEnvelopes d s) = priv_lastSnareT s"
  "priv_lastHihatT (bandEnvelopes d s) = priv_lastHihatT s"
  "rms (bandEnvelopes d s) = rms s"
  "rmsSmooth (bandEnvelopes d s) = rmsSmooth s"
  "rmsPeak (bandEnvelopes d s) = rmsPeak s"
  "sampleRate (bandEnvelopes d s) = sampleRate s"
  "fftSize (bandEnvelopes d s) = fftSize s"
  "rootNote (bandEnvelopes d s) = rootNote s"
  "noteName (bandEnvelopes d s) = noteName s"
  "chroma (bandEnvelopes d s) = chroma s"
  "priv_noteBins (bandEnvelopes d s) = priv_noteBins s"
  "priv_envSubBass (bandEnvelopes d s) = priv_envSubBass s"
  "priv_envBass (bandEnvelopes d s) = priv_envBass s"
  "priv_envMid (bandEnvelopes d s) = priv_envMid s"
  "priv_envHigh (bandEnvelopes d s) = priv_envHigh s"
  "priv_tMs (bandEnvelopes d s) = priv_tMs s"
  "transientSharpness (bandEnvelopes d s) = transientSharpness s"
  "harmonicRatio (bandEnvelopes d s) = harmonicRatio s"
  by (simp_all add: bandEnvelopes_def Let_def)

lemma beatStage_frame [simp]:
  "bands (snd (beatStage k t d s)) = bands s"
  "bandValues (snd (beatStage k t d s)) = bandValues s"
  "bandPeaks (snd (beatStage k t d s)) = bandPeaks s"
  "bandEdges (snd (beatStage k t d s)) = bandEdges s"
  "prevBandValues (snd (beatStage k t d s)) = prevBandValues s"
  "onsetDecay (snd (beatStage k t d s)) = onsetDecay s"
  "priv_fftSmooth (snd (beatStage k t d s)) = priv_fftSmooth s"
  "spectralCentroid (snd (beatStage k t d s)) = spectralCentroid s"
  "spectralFlux (snd (beatStage k t d s)) = spectralFlux s"
  "energy (snd (beatStage k t d s)) = energy s"
  "spectralSpread (snd (beatStage k t d s)) = spectralSpread s"
  "spectralRolloff (snd (beatStage k t d s)) = spectralRolloff s"
  "spectralFlatness (snd (beatStage k t d s)) = spectralFlatness s"
  "onsetKick (snd (beatStage k t d s)) = onsetKick s"
  "onsetSnare (snd (beatStage k t d s)) = onsetSnare s"
  "onsetHihat (snd (beatStage k t d s)) = onsetHihat s"
  "onsetGlobal (snd (beatStage k t d s)) = onsetGlobal s"
  "priv_fluxHist (snd (beatStage k t d s)) = priv_fluxHist s"
  "priv_fluxKickHist (snd (beatStage k t d s)) = priv_fluxKickHist s"
  "priv_fluxSnareHist (snd (beatStage k t d s)) = priv_fluxSnareHist s"
  "priv_fluxHihatHist (snd (beatStage k t d s)) = priv_fluxHihatHist s"
  "priv_lastOnsetT (snd (beatStage k t d s)) = priv_lastOnsetT s"
  "priv_lastKickT (snd (beatStage k t d s)) = priv_lastKickT s"
  "priv_lastSnareT (snd (beatStage k t d s)) = priv_lastSnareT s"
  "priv_lastHihatT (snd (beatStage k t d s)) = priv_lastHihatT s"
  "rms (snd (beatStage k t d s)) = rms s"
  "rmsSmooth (snd (beatStage k t d s)) = rmsSmooth s"
  "rmsPeak (snd (beatStage k t d s)) = rmsPeak s"
  "sampleRate (snd (beatStage k t d s)) = sampleRate s"
  "fftSize (snd (beatStage k t d s)) = fftSize s"
  "rootNote (snd (beatStage k t d s)) = rootNote s"
  "noteName (snd (beatStage k t d s)) = noteName s"
  "chroma (snd (beatStage k t d s)) = chroma s"
  "priv_noteBins (snd (beatStage k t d s)) = priv_noteBins s"
  "smoothSubBass (snd (beatStage k t d s)) = smoothSubBass s"
  "smoothBass (snd (beatStage k t d s)) = smoothBass s"
  "smoothLowMid (snd (beatStage k t d s)) = smoothLowMid s"
  "smoothMid (snd (beatStage k t d s)) = smoothMid s"
  "smoothHighMid (snd (beatStage k t d s)) = smoothHighMid s"
  "smoothHigh (snd (beatStage k t d s)) = smoothHigh s"
  "smoothBrilliance (snd (beatStage k t d s)) = smoothBrilliance s"
  "priv_envSubBass (snd (beatStage k t d s)) = priv_envSubBass s"
  "priv_envBass (snd (beatStage k t d s)) = priv_envBass s"
  "priv_envMid (snd (beatStage k t d s)) = priv_envMid s"
  "priv_envHigh (snd (beatStage k t d s)) = priv_envHigh s"
  "priv_tMs (snd (beatStage k t d s)) = priv_tMs s"
  "transientSharpness (snd (beatStage k t d s)) = transientSharpness s"
  "harmonicRatio (snd (beatStage k t d s)) = harmonicRatio s"
  by (simp_all add: beatStage_def Let_def split: prod.split)

lemma chromaStage_frame [simp]:
  "bands (chromaStage N h s) = bands s"
  "bandValues (chromaStage N h s) = bandValues s"
  "bandPeaks (chromaStage N h s) = bandPeaks s"
  "bandEdges (chromaStage N h s) = bandEdges s"
  "prevBandValues (chromaStage N h s) = prevBandValues s"
  "onsetDecay (chromaStage N h s) = onsetDecay s"
  "priv_fftSmooth (chromaStage N h s) = priv_fftSmooth s"
  "beatInterval (chromaStage N h s) = beatInterval s"
  "lastBeatTime (chromaStage N h s) = lastBeatTime s"
  "beatGate (chromaStage N h s) = beatGate s"
  "bpmSmooth (chromaStage N h s) = bpmSmooth s"
  "beatCount (chromaStage N h s) = beatCount s"
  "barCount (chromaStage N h s) = barCount s"
  "spectralCentroid (chromaStage N h s) = spectralCentroid s"
  "spectralFlux (chromaStage N h s) = spectralFlux s"
  "energy (chromaStage N h s) = energy s"
  "spectralSpread (chromaStage N h s) = spectralSpread s"
  "spectralRolloff (chromaStage N h s) = spectralRolloff s"
  "spectralFlatness (chromaStage N h s) = spectralFlatness s"
  "onsetKick (chromaStage N h s) = onsetKick s"
  "onsetSnare (chromaStage N h s) = onsetSnare s"
  "onsetHihat (chromaStage N h s) = onsetHihat s"
  "onsetGlobal (chromaStage N h s) = onsetGlobal s"
  "priv_fluxHist (chromaStage N h s) = priv_fluxHist s"
  "priv_fluxKickHist (chromaStage N h s) = priv_fluxKickHist s"
  "priv_fluxSnareHist (chromaStage N h s) = priv_fluxSnareHist s"
  "priv_fluxHihatHist (chromaStage N h s) = priv_fluxHihatHist s"
  "priv_lastOnsetT (chromaStage N h s) = priv_lastOnsetT s"
  "priv_lastKickT (chromaStage N h s) = priv_lastKickT s"
  "priv_lastSnareT (chromaStage N h s) = priv_lastSnareT s"
  "priv_lastHihatT (chromaStage N h s) = priv_lastHihatT s"
  "rms (chromaStage N h s) = rms s"
  "rmsSmooth (chromaStage N h s) = rmsSmooth s"
  "rmsPeak (chromaStage N h s) = rmsPeak s"
  "sampleRate (chromaStage N h s) = sampleRate s"
  "fftSize (chromaStage N h s) = fftSize s"
  "priv_noteBins (chromaStage N h s) = priv_noteBins s"
  "smoothSubBass (chromaStage N h s) = smoothSubBass s"
  "smoothBass (chromaStage N h s) = smoothBass s"
  "smoothLowMid (chromaStage N h s) = smoothLowMid s"
  "smoothMid (chromaStage N h s) = smoothMid s"
  "smoothHighMid (chromaStage N h s) = smoothHighMid s"
  "smoothHigh (chromaStage N h s) = smoothHigh s"
  "smoothBrilliance (chromaStage N h s) = smoothBrilliance s"
  "priv_envSubBass (chromaStage N h s) = priv_envSubBass s"
  "priv_envBass (chromaStage N h s) = priv_envBass s"
  "priv_envMid (chromaStage N h s) = priv_envMid s"
  "priv_envHigh (chromaStage N h s) = priv_envHigh s"
  "priv_tMs (chromaStage N h s) = priv_tMs s"
  "transientSharpness (chromaStage N h s) = transientSharpness s"
  "harmonicRatio (chromaStage N h s) = harmonicRatio s"
  by (simp_all add: chromaStage_def Let_def split: option.split prod.split)

section \<open>Properties of the flux loop\<close>





lemma powr_lower: "1 \<le> (10::real) powr (3 * real i / 64)"
  by (simp add: ge_one_powr_ge_zero)





section \<open>Properties of a whole call of analyze\<close>

lemma fluxesOf_frame [simp]:
  "bands (snd (fluxesOf s fd d a)) = bands s"
  "bandEdges (snd (fluxesOf s fd d a)) = bandEdges s"
  "beatInterval (snd (fluxesOf s fd d a)) = beatInterval s"
  "lastBeatTime (snd (fluxesOf s fd d a)) = lastBeatTime s"
  "beatGate (snd (fluxesOf s fd d a)) = beatGate s"
  "bpmSmooth (snd (fluxesOf s fd d a)) = bpmSmooth s"
  "beatCount (snd (fluxesOf s fd d a)) = beatCount s"
  "barCount (snd (fluxesOf s fd d a)) = barCount s"
  "spectralFlux (snd (fluxesOf s fd d a)) = spectralFlux s"
  "energy (snd (fluxesOf s fd d a)) = energy s"
  "spectralSpread (snd (fluxesOf s fd d a)) = spectralSpread s"
  "spectralRolloff (snd (fluxesOf s fd d a)) = spectralRolloff s"
  "onsetKick (snd (fluxesOf s fd d a)) = onsetKick s"
  "onsetSnare (snd (fluxesOf s fd d a)) = onsetSnare s"
  "onsetHihat (snd (fluxesOf s fd d a)) = onsetHihat s"
  "onsetGlobal (snd (fluxesOf s fd d a)) = onsetGlobal s"
  "priv_lastOnsetT (snd (fluxesOf s fd d a)) = priv_lastOnsetT s"
  "priv_lastKickT (snd (fluxesOf s fd d a)) = priv_lastKickT s"
  "priv_lastSnareT (snd (fluxesOf s fd d a)) = priv_lastSnareT s"
  "priv_lastHihatT (snd (fluxesOf s fd d a)) = priv_lastHihatT s"
  "rms (snd (fluxesOf s fd d a)) = rms s"
  "rmsSmooth (snd (fluxesOf s fd d a)) = rmsSmooth s"
  "rmsPeak (snd (fluxesOf s fd d a)) = rmsPeak s"
  "sampleRate (snd (fluxesOf s fd d a)) = sampleRate s"
  "fftSize (snd (fluxesOf s fd d a)) = fftSize s"
  "rootNote (snd (fluxesOf s fd d a)) = rootNote s"
  "noteName (snd (fluxesOf s fd d a)) = noteName s"
  "chroma (snd (fluxesOf s fd d a)) = chroma s"
  "priv_noteBins (snd (fluxesOf s fd d a)) = priv_noteBins s"
  "smoothSubBass (snd (fluxesOf s fd d a)) = smoothSubBass s"
  "smoothBass (snd (fluxesOf s fd d a)) = smoothBass s"
  "smoothLowMid (snd (fluxesOf s fd d a)) = smoothLowMid s"
  "smoothMid (snd (fluxesOf s fd d a)) = smoothMid s"
  "smoothHighMid (snd (fluxesOf s fd d a)) = smoothHighMid s"
  "smoothHigh (snd (fluxesOf s fd d a)) = smoothHigh s"
  "smoothBrilliance (snd (fluxesOf s fd d a)) = smoothBrilliance s"
  "priv_envSubBass (snd (fluxesOf s fd d a)) = priv_envSubBass s"
  "priv_envBass (snd (fluxesOf s fd d a)) = priv_envBass s"
  "priv_envMid (snd (fluxesOf s fd d a)) = priv_envMid s"
  "priv_envHigh (snd (fluxesOf s fd d a)) = priv_envHigh s"
  "transientSharpness (snd (fluxesOf s fd d a)) = transientSharpness s"
  "harmonicRatio (snd (fluxesOf s fd d a)) = harmonicRatio s"
  by (simp_all add: fluxesOf_def Let_def case_prod_beta)

lemma fluxesOf_tMs [simp]: "priv_tMs (snd (fluxesOf s fd d a)) = priv_tMs s + d * 1000"
  by (simp add: fluxesOf_def Let_def case_prod_beta)

text \<open>The fields of the tempo tracker after a call are those the beat stage computes from
  the fields before the call.\<close>

lemma beatStage_fields:
  "beatCount (snd (beatStage k t d s)) = (if beatFires k t s then beatCount s + 1 else beatCount s)"
  "barCount (snd (beatStage k t d s)) =
     (if beatFires k t s \<and> (beatCount s + 1) mod 4 = 0 then barCount s + 1 else barCount s)"
  "fst (beatStage k t d s) = beatFires k t s"
  by (simp_all add: beatStage_def Let_def)

lemma analyze_counts:
  "beatCount (snd (analyze s fd td d a)) = (if fst (analyze s fd td d a) then beatCount s + 1 else beatCount s)"
  "barCount (snd (analyze s fd td d a)) =
     (if fst (analyze s fd td d a) \<and> (beatCount s + 1) mod 4 = 0 then barCount s + 1 else barCount s)"
  by (simp_all add: analyze_def Let_def case_prod_beta beatStage_fields beatFires_def)

lemma run_counts:
  "beatCount (runAnalyze s frs) = beatCount s + firedBeats s frs"
  "barCount s = beatCount s div 4 \<Longrightarrow> barCount (runAnalyze s frs) = beatCount (runAnalyze s frs) div 4"
proof (induction frs arbitrary: s)
  case Nil
  { case 1 show ?case by simp }
  { case 2 then show ?case by simp }
next
  case (Cons fr frs)
  { case 1 show ?case
      using Cons.IH(1)[of "snd (analyzeFrame s fr)"]
      by (simp add: analyzeFrame_def analyze_counts) }
  { case 2
    have "barCount (snd (analyzeFrame s fr)) = beatCount (snd (analyzeFrame s fr)) div 4"
      using 2 unfolding analyzeFrame_def analyze_counts
      by (auto simp add: mod_eq_0_iff_dvd) presburger+
    then show ?case using Cons.IH(2) by simp }
qed

text \<open>
  Claim C6.  From a fresh analyzer, after any sequence of calls, \<open>beatCount\<close> is the number of
  beats fired and \<open>barCount\<close> is that number divided by 4, rounded down: 0 after three fired
  beats, 1 after four, and one more with every fourth fired beat.
\<close>

theorem barCount_every_fourth_beat:
  "beatCount (runAnalyze AudioAnalyzer_new frs) = firedBeats AudioAnalyzer_new frs
   \<and> barCount (runAnalyze AudioAnalyzer_new frs) = firedBeats AudioAnalyzer_new frs div 4"
  using run_counts(1)[of AudioAnalyzer_new frs] run_counts(2)[of AudioAnalyzer_new frs]
  by (simp add: AudioAnalyzer_new_def)

section \<open>Properties of the tempo estimate\<close>

text \<open>Whatever the fields hold, \<open>getBPM\<close> returns a finite number or NaN, never an infinity;
  it returns NaN only when \<open>bpmSmooth\<close> is not finite and \<open>beatInterval\<close> is NaN.\<close>

lemma js_clamp_240_2000:
  "js_clamp x (Num 240) (Num 2000) = NaN \<and> x = NaN
   \<or> (\<exists>r. js_clamp x (Num 240) (Num 2000) = Num r \<and> 240 \<le> r \<and> r \<le> 2000)"
  by (cases x) (auto simp add: js_clamp_def)

lemma getBPM_no_infinity: "getBPM s \<noteq> PosInf \<and> getBPM s \<noteq> NegInf"
proof (cases "js_isFinite (bpmSmooth s)")
  case True
  then show ?thesis by (cases "bpmSmooth s") (simp_all add: getBPM_def)
next
  case False
  then show ?thesis
    using js_clamp_240_2000[of "beatInterval s"] by (auto simp add: getBPM_def)
qed

lemma getBPM_fallback_finite:
  "beatInterval s \<noteq> NaN \<Longrightarrow> js_isFinite (getBPM s)"
proof (cases "js_isFinite (bpmSmooth s)")
  case True
  then show ?thesis by (cases "bpmSmooth s") (simp_all add: getBPM_def)
next
  case False
  assume "beatInterval s \<noteq> NaN"
  then show ?thesis
    using False js_clamp_240_2000[of "beatInterval s"] by (auto simp add: getBPM_def)
qed

text \<open>In every analyzer state the beat interval is a positive number and the smoothed tempo
  is a number.\<close>

lemma beatStage_tempoFinite:
  assumes "tempoFinite s"
  shows "tempoFinite (snd (beatStage k t d s))"
proof -
  obtain b x where b: "beatInterval s = Num b" "0 < b" "bpmSmooth s = Num x"
    using assms unfolding tempoFinite_def by blast
  have pos: "0 < b + (t - lastBeatTime s - b) / 4" if "180 < t - lastBeatTime s"
    using that b(2) by argo
  then have nz: "b + (t - lastBeatTime s - b) / 4 \<noteq> 0" if "180 < t - lastBeatTime s"
    using that by fastforce
  show ?thesis
    using b pos nz
    by (auto simp add: beatStage_def Let_def tempoFinite_def js_lerp_def js_sub_def)
qed

lemma analyze_tempoFinite:
  assumes "tempoFinite s"
  shows "tempoFinite (snd (analyze s fd td d a))"
proof -
  let ?s11 = "bandEnvelopes d (rmsEnvelope d (rmsStage td (onsetEnvelopes
      (fst (detectOnsets (fst (fluxesOf s fd d a)) (priv_tMs (snd (fluxesOf s fd d a))) (snd (fluxesOf s fd d a))))
      (fst (fluxesOf s fd d a))
      (snd (detectOnsets (fst (fluxesOf s fd d a)) (priv_tMs (snd (fluxesOf s fd d a))) (snd (fluxesOf s fd d a)))))))"
  have "tempoFinite ?s11" using assms by (simp add: tempoFinite_def)
  then have "tempoFinite (snd (beatStage (kOn (fst (detectOnsets (fst (fluxesOf s fd d a)) (priv_tMs (snd (fluxesOf s fd d a))) (snd (fluxesOf s fd d a)))))
      (priv_tMs (snd (fluxesOf s fd d a))) d ?s11))"
    by (rule beatStage_tempoFinite)
  then show ?thesis
    by (simp add: analyze_def Let_def case_prod_beta tempoFinite_def)
qed

lemma reachable_tempoFinite: "reachable s \<Longrightarrow> tempoFinite s"
proof (induction rule: reachable.induct)
  case reachable_new
  then show ?case by (simp add: tempoFinite_def AudioAnalyzer_new_def)
next
  case (reachable_analyze s fd td d a)
  then show ?case by (simp add: analyze_tempoFinite)
next
  case (reachable_setFFTInfo s fs sr)
  then show ?case by (simp add: tempoFinite_def setFFTInfo_def)
qed

text \<open>
  Claim C8, as amended.  \<open>getBPM()\<close> returns \<open>bpmSmooth\<close> rounded to the nearest integer when
  \<open>bpmSmooth\<close> is finite.  Otherwise it returns 60000 over the beat interval clamped to
  240..2000, rounded: a number between 30 and 250 when the beat interval is a number or an
  infinity, and NaN when the beat interval is NaN.  So the value returned is finite in
  every state but those where \<open>bpmSmooth\<close> is not finite and the beat interval is NaN, and in
  every state reached from the constructor.
\<close>

theorem getBPM_value:
  "(bpmSmooth s = Num x \<longrightarrow> getBPM s = Num (of_int \<lfloor>x + 1 / 2\<rfloor>))
   \<and> (\<not> js_isFinite (bpmSmooth s) \<and> beatInterval s = Num y \<longrightarrow>
        getBPM s = Num (of_int \<lfloor>60000 / min 2000 (max 240 y) + 1 / 2\<rfloor>))
   \<and> (\<not> js_isFinite (bpmSmooth s) \<and> beatInterval s = PosInf \<longrightarrow> getBPM s = Num 30)
   \<and> (\<not> js_isFinite (bpmSmooth s) \<and> beatInterval s = NegInf \<longrightarrow> getBPM s = Num 250)
   \<and> (\<not> js_isFinite (bpmSmooth s) \<and> beatInterval s = NaN \<longrightarrow> getBPM s = NaN)
   \<and> (js_isFinite (getBPM s) \<longleftrightarrow> js_isFinite (bpmSmooth s) \<or> beatInterval s \<noteq> NaN)
   \<and> (reachable s \<longrightarrow> js_isFinite (bpmSmooth s) \<and> js_isFinite (getBPM s))"
proof -
  have 1: "getBPM s = Num (of_int \<lfloor>x + 1 / 2\<rfloor>)" if "bpmSmooth s = Num x" for x
    using that by (simp add: getBPM_def)
  have 2: "getBPM s = Num (of_int \<lfloor>60000 / min 2000 (max 240 y) + 1 / 2\<rfloor>)"
    if "\<not> js_isFinite (bpmSmooth s)" "beatInterval s = Num y" for y
    using that by (simp add: getBPM_def js_clamp_def)
  have 3: "getBPM s = Num 30" if "\<not> js_isFinite (bpmSmooth s)" "beatInterval s = PosInf"
    using that by (simp add: getBPM_def js_clamp_def)
  have 4: "getBPM s = Num 250" if "\<not> js_isFinite (bpmSmooth s)" "beatInterval s = NegInf"
    using that by (simp add: getBPM_def js_clamp_def)
  have 5: "getBPM s = NaN" if "\<not> js_isFinite (bpmSmooth s)" "beatInterval s = NaN"
    using that by (simp add: getBPM_def js_clamp_def)
  have 6: "js_isFinite (getBPM s) \<longleftrightarrow> js_isFinite (bpmSmooth s) \<or> beatInterval s \<noteq> NaN"
  proof (cases "js_isFinite (bpmSmooth s)")
    case True
    then obtain x where "bpmSmooth s = Num x" by (cases "bpmSmooth s") simp_all
    then show ?thesis using 1 by simp
  next
    case False
    then show ?thesis using 2 3 4 5 by (cases "beatInterval s") simp_all
  qed
  have 7: "js_isFinite (bpmSmooth s) \<and> js_isFinite (getBPM s)" if r: "reachable s"
  proof -
    obtain b x where "beatInterval s = Num b" "bpmSmooth s = Num x"
      using reachable_tempoFinite[OF r] unfolding tempoFinite_def by blast
    then show ?thesis using 6 by simp
  qed
  show ?thesis using 1 2 3 4 5 6 7 by blast
qed

theorem getBPM_value_witness:
  "getBPM (AudioAnalyzer_new\<lparr>bpmSmooth := Num 119.6\<rparr>) = Num 120
   \<and> getBPM (AudioAnalyzer_new\<lparr>bpmSmooth := Num 120.5\<rparr>) = Num 121
   \<and> getBPM (AudioAnalyzer_new\<lparr>bpmSmooth := PosInf, beatInterval := Num 100000\<rparr>) = Num 30
   \<and> getBPM (AudioAnalyzer_new\<lparr>bpmSmooth := NaN, beatInterval := Num 100\<rparr>) = Num 250
   \<and> getBPM (AudioAnalyzer_new\<lparr>bpmSmooth := NaN, beatInterval := Num 700\<rparr>) = Num 86
   \<and> getBPM (AudioAnalyzer_new\<lparr>bpmSmooth := NaN, beatInterval := PosInf\<rparr>) = Num 30
   \<and> getBPM (AudioAnalyzer_new\<lparr>bpmSmooth := NegInf, beatInterval := NegInf\<rparr>) = Num 250
   \<and> js_isFinite (getBPM (AudioAnalyzer_new\<lparr>bpmSmooth := NaN\<rparr>))
   \<and> reachable AudioAnalyzer_new \<and> js_isFinite (getBPM AudioAnalyzer_new)"
  using getBPM_value[of "AudioAnalyzer_new\<lparr>bpmSmooth := Num 119.6\<rparr>" "119.6"]
    getBPM_value[of "AudioAnalyzer_new\<lparr>bpmSmooth := Num 120.5\<rparr>" "120.5"]
    getBPM_value[of "AudioAnalyzer_new\<lparr>bpmSmooth := PosInf, beatInterval := Num 100000\<rparr>" _ 100000]
    getBPM_value[of "AudioAnalyzer_new\<lparr>bpmSmooth := NaN, beatInterval := Num 100\<rparr>" _ 100]
    getBPM_value[of "AudioAnalyzer_new\<lparr>bpmSmooth := NaN, beatInterval := Num 700\<rparr>" _ 700]
    getBPM_value[of "AudioAnalyzer_new\<lparr>bpmSmooth := NaN, beatInterval := PosInf\<rparr>"]
    getBPM_value[of "AudioAnalyzer_new\<lparr>bpmSmooth := NegInf, beatInterval := NegInf\<rparr>"]
    getBPM_value[of "AudioAnalyzer_new\<lparr>bpmSmooth := NaN\<rparr>"]
    getBPM_value[of AudioAnalyzer_new]
    reachable_new
  by (simp add: AudioAnalyzer_new_def)

text \<open>
  Claim C8 as stated fails: in a state where neither \<open>bpmSmooth\<close> nor the beat interval is a
  number, the value returned is NaN.
\<close>

theorem getBPM_not_finite:
  "\<not> js_isFinite (bpmSmooth (AudioAnalyzer_new\<lparr>bpmSmooth := NaN, beatInterval := NaN\<rparr>))
   \<and> getBPM (AudioAnalyzer_new\<lparr>bpmSmooth := NaN, beatInterval := NaN\<rparr>) = NaN
   \<and> \<not> js_isFinite (getBPM (AudioAnalyzer_new\<lparr>bpmSmooth := NaN, beatInterval := NaN\<rparr>))"
  by (simp add: getBPM_def js_clamp_def)

section \<open>Properties of the band loop\<close>

text \<open>The value that the band loop computes for band \<open>b\<close> from the state it starts with.\<close>

lemma bandBody_fold:
  assumes "n \<le> length (bandValues s)" "n \<le> length (bandPeaks s)"
  shows "\<exists>a bv bp. fold (bandBody N h) [0..<n] (a0, s) = (a, s\<lparr>bandValues := bv, bandPeaks := bp\<rparr>)
     \<and> length bv = length (bandValues s) \<and> length bp = length (bandPeaks s)
     \<and> (\<forall>b<n. bv ! b = bandValueOf N h s b \<and> bp ! b = max (bandPeaks s ! b * 0.97) (bandValueOf N h s b))
     \<and> (\<forall>j\<ge>n. bv ! j = bandValues s ! j \<and> bp ! j = bandPeaks s ! j)"
  using assms
proof (induction n)
  case 0
  show ?case
    by (intro exI[of _ a0] exI[of _ "bandValues s"] exI[of _ "bandPeaks s"]) simp
next
  case (Suc n)
  then obtain a bv bp where
    1: "fold (bandBody N h) [0..<n] (a0, s) = (a, s\<lparr>bandValues := bv, bandPeaks := bp\<rparr>)"
    and 2: "length bv = length (bandValues s)" "length bp = length (bandPeaks s)"
    and 3: "\<forall>b<n. bv ! b = bandValueOf N h s b \<and> bp ! b = max (bandPeaks s ! b * 0.97) (bandValueOf N h s b)"
    and 4: "\<forall>j\<ge>n. bv ! j = bandValues s ! j \<and> bp ! j = bandPeaks s ! j"
    by force
  have 5: "bp ! n = bandPeaks s ! n" using 4 by simp
  let ?v = "bandValueOf N h s n"
  let ?bv = "bv[n := ?v]"
  let ?bp = "bp[n := max (bandPeaks s ! n * 0.97) ?v]"
  obtain a' where step: "bandBody N h n (a, s\<lparr>bandValues := bv, bandPeaks := bp\<rparr>)
      = (a', s\<lparr>bandValues := ?bv, bandPeaks := ?bp\<rparr>)"
    by (simp add: bandBody_def Let_def 5 bandValueOf_def fftArr_def)
  have "fold (bandBody N h) [0..<Suc n] (a0, s) = (a', s\<lparr>bandValues := ?bv, bandPeaks := ?bp\<rparr>)"
    by (simp add: 1 step)
  moreover have "length ?bv = length (bandValues s)" "length ?bp = length (bandPeaks s)"
    using 2 by simp_all
  moreover have "\<forall>b<Suc n. ?bv ! b = bandValueOf N h s b
       \<and> ?bp ! b = max (bandPeaks s ! b * 0.97) (bandValueOf N h s b)"
    using 2 3 Suc.prems by (auto simp add: nth_list_update less_Suc_eq)
  moreover have "\<forall>j\<ge>Suc n. ?bv ! j = bandValues s ! j \<and> ?bp ! j = bandPeaks s ! j"
    using 4 by simp
  ultimately show ?case by blast
qed

lemma spectralStage_bands:
  assumes "bands s \<le> length (bandValues s)" "bands s \<le> length (bandPeaks s)" "b < bands s"
  shows "bandValues (spectralStage N h s) ! b = bandValueOf N h s b"
    and "bandPeaks (spectralStage N h s) ! b = max (bandPeaks s ! b * 0.97) (bandValueOf N h s b)"
    and "length (bandValues (spectralStage N h s)) = length (bandValues s)"
    and "length (bandPeaks (spectralStage N h s)) = length (bandPeaks s)"
  using bandBody_fold[OF assms(1,2), of N h
      "\<lparr> sumEnergy = 0, sumCentroid = 0, sumCentroidWeight = 0, geoMean = 0, arithmeticMean = 0 \<rparr>"]
    assms(3)
  by (auto simp add: spectralStage_def bandLoop_def Let_def split: prod.split)

section \<open>Properties of the band values after a call\<close>

lemma binsState_frame [simp]:
  "bands (binsState s fd d a) = bands s"
  "bandValues (binsState s fd d a) = bandValues s"
  "bandPeaks (binsState s fd d a) = bandPeaks s"
  "bandEdges (binsState s fd d a) = bandEdges s"
  "prevBandValues (binsState s fd d a) = prevBandValues s"
  "onsetDecay (binsState s fd d a) = onsetDecay s"
  "sampleRate (binsState s fd d a) = sampleRate s"
  "fftSize (binsState s fd d a) = fftSize s"
  by (simp_all add: binsState_def)

lemma fluxesOf_bands:
  "bandValues (snd (fluxesOf s fd d a))
     = bandValues (spectralStage (length fd) (sampleRate s / fftSize s) (binsState s fd d a))"
  "bandPeaks (snd (fluxesOf s fd d a))
     = bandPeaks (spectralStage (length fd) (sampleRate s / fftSize s) (binsState s fd d a))"
  by (simp_all add: fluxesOf_def binsState_def Let_def case_prod_beta)

lemma analyze_bands:
  "bandValues (snd (analyze s fd td d a))
     = bandValues (spectralStage (length fd) (sampleRate s / fftSize s) (binsState s fd d a))"
  "bandPeaks (snd (analyze s fd td d a))
     = bandPeaks (spectralStage (length fd) (sampleRate s / fftSize s) (binsState s fd d a))"
  "bands (snd (analyze s fd td d a)) = bands s"
  by (simp_all add: analyze_def Let_def case_prod_beta fluxesOf_bands)

lemma analyze_band_values:
  assumes "arraysOk s" "b < 64"
  shows "bandValues (snd (analyze s fd td d a)) ! b
           = bandValueOf (length fd) (sampleRate s / fftSize s) (binsState s fd d a) b"
    and "bandPeaks (snd (analyze s fd td d a)) ! b
           = max (bandPeaks s ! b * 0.97)
               (bandValueOf (length fd) (sampleRate s / fftSize s) (binsState s fd d a) b)"
  using assms spectralStage_bands(1,2)[of "binsState s fd d a" b]
  by (simp_all add: analyze_bands arraysOk_def)

lemma analyze_arraysOk: "arraysOk s \<Longrightarrow> arraysOk (snd (analyze s fd td d a))"
  using spectralStage_bands(3,4)[of "binsState s fd d a" 0]
  by (simp add: arraysOk_def analyze_bands)

lemma reachable_arraysOk: "reachable s \<Longrightarrow> arraysOk s"
proof (induction rule: reachable.induct)
  case reachable_new
  then show ?case by (simp add: arraysOk_def AudioAnalyzer_new_def)
next
  case (reachable_analyze s fd td d a)
  then show ?case by (simp add: analyze_arraysOk)
next
  case (reachable_setFFTInfo s fs sr)
  then show ?case by (simp add: arraysOk_def setFFTInfo_def)
qed

text \<open>
  Claim C9.  After every call of \<open>analyze\<close> on an analyzer state, the decaying peak of each
  of the 64 bands is at least the band's current value.
\<close>

theorem bandPeaks_ge_bandValues:
  assumes "reachable s" "b < 64"
  shows "bandValues (snd (analyze s fd td d a)) ! b \<le> bandPeaks (snd (analyze s fd td d a)) ! b"
  using analyze_band_values[OF reachable_arraysOk[OF assms(1)] assms(2)] by simp

theorem bandPeaks_ge_bandValues_witness:
  "bandValues (snd (analyze AudioAnalyzer_new (replicate 4096 255) None (1 / 60) 0.18)) ! 0
     \<le> bandPeaks (snd (analyze AudioAnalyzer_new (replicate 4096 255) None (1 / 60) 0.18)) ! 0"
  using bandPeaks_ge_bandValues[OF reachable_new, of 0] by simp

section \<open>Properties of the onset envelopes\<close>







section \<open>Calls on frames of one level\<close>





















section \<open>A run in which the kick channel fires\<close>





















section \<open>A repeated call with a tick of 0\<close>


text \<open>With a tick of 0 the envelope followers do not move, whatever the state.\<close>

lemma analyze_tick0:
  "rmsSmooth (snd (analyze s fd td 0 a)) = rmsSmooth s"
  "smoothSubBass (snd (analyze s fd td 0 a)) = smoothSubBass s"
  "smoothBass (snd (analyze s fd td 0 a)) = smoothBass s"
  "smoothLowMid (snd (analyze s fd td 0 a)) = smoothLowMid s"
  "smoothMid (snd (analyze s fd td 0 a)) = smoothMid s"
  "smoothHighMid (snd (analyze s fd td 0 a)) = smoothHighMid s"
  "smoothHigh (snd (analyze s fd td 0 a)) = smoothHigh s"
  "smoothBrilliance (snd (analyze s fd td 0 a)) = smoothBrilliance s"
  "priv_tMs (snd (analyze s fd td 0 a)) = priv_tMs s"
  by (simp_all add: analyze_def Let_def case_prod_beta rmsEnvelope_def bandEnvelopes_def
        updateEnv_def)

text \<open>After any call, the energy is the clamped weighted sum of the envelopes, and the RMS
  and the harmonic ratio are those of the waveform of the call.\<close>

lemma analyze_energy:
  "energy (snd (analyze s fd td d a))
     = clamp (0.25 * smoothSubBass (snd (analyze s fd td d a))
              + 0.30 * smoothBass (snd (analyze s fd td d a))
              + 0.15 * smoothLowMid (snd (analyze s fd td d a))
              + 0.15 * smoothMid (snd (analyze s fd td d a))
              + 0.10 * smoothHighMid (snd (analyze s fd td d a))
              + 0.05 * smoothHigh (snd (analyze s fd td d a))) 0 1.5"
  by (simp add: analyze_def Let_def case_prod_beta bandEnvelopes_def)

lemma analyze_rms:
  "rms (snd (analyze s fd td d a)) = rms (rmsStage td s)"
  "harmonicRatio (snd (analyze s fd td d a)) = harmonicRatio (rmsStage td s)"
  by (simp_all add: analyze_def Let_def case_prod_beta rmsStage_def split: option.split)

lemma rmsStage_again:
  "rms (rmsStage td (rmsStage td s)) = rms (rmsStage td s)"
  "harmonicRatio (rmsStage td (rmsStage td s)) = harmonicRatio (rmsStage td s)"
  by (simp_all add: rmsStage_def Let_def case_prod_beta split: option.split)

lemma rmsStage_cong:
  "rms s' = rms s \<Longrightarrow> rms (rmsStage td s') = rms (rmsStage td s)"
  "harmonicRatio s' = harmonicRatio s \<Longrightarrow> harmonicRatio (rmsStage td s') = harmonicRatio (rmsStage td s)"
  by (simp_all add: rmsStage_def Let_def case_prod_beta split: option.split)

text \<open>
  Claim C3, as amended.  When \<open>analyze\<close> is called again with the arguments of the previous
  call and a tick of 0, the fields whose update is scaled by the tick or that depend on the
  waveform alone keep their value: the clock, \<open>rms\<close>, \<open>harmonicRatio\<close>, \<open>rmsSmooth\<close>, the seven
  smoothed band envelopes and \<open>energy\<close>.
\<close>

theorem repeated_call_tick0:
  "(let s1 = snd (analyze s fd td d a); s2 = snd (analyze s1 fd td 0 a)
    in priv_tMs s2 = priv_tMs s1
       \<and> rms s2 = rms s1 \<and> harmonicRatio s2 = harmonicRatio s1 \<and> rmsSmooth s2 = rmsSmooth s1
       \<and> smoothSubBass s2 = smoothSubBass s1 \<and> smoothBass s2 = smoothBass s1
       \<and> smoothLowMid s2 = smoothLowMid s1 \<and> smoothMid s2 = smoothMid s1
       \<and> smoothHighMid s2 = smoothHighMid s1 \<and> smoothHigh s2 = smoothHigh s1
       \<and> smoothBrilliance s2 = smoothBrilliance s1
       \<and> energy s2 = energy s1)"
proof -
  let ?s1 = "snd (analyze s fd td d a)"
  let ?s2 = "snd (analyze ?s1 fd td 0 a)"
  have r: "rms ?s2 = rms ?s1" "harmonicRatio ?s2 = harmonicRatio ?s1"
    using rmsStage_cong(1)[of ?s1 "rmsStage td s" td] rmsStage_cong(2)[of ?s1 "rmsStage td s" td]
    by (simp_all add: analyze_rms rmsStage_again)
  have e: "energy ?s2 = energy ?s1"
    by (simp add: analyze_energy[of ?s1] analyze_tick0) (simp add: analyze_energy)
  show ?thesis
    using r e by (simp add: Let_def analyze_tick0)
qed

section \<open>Properties of the root note\<close>











section \<open>What a call does to the root note\<close>

















section \<open>Properties of the pulse lockout\<close>

lemma update_beatLockout:
  "priv_beatLockout (update now audio dt smoothness m)
     = max 0 ((if pulseTriggers audio m then 150 + smoothness * 200 else priv_beatLockout m)
              - dt * 1000)"
  by (simp add: update_def Let_def)

text \<open>Every trigger sets the countdown to 150 ms and every call takes one tick off it, so
  150 times the number of triggers is bounded by the time that has passed.\<close>

lemma lockout_arith:
  fixes c n L :: real
  assumes "150 * c \<le> max 0 (n * (50 / 3) + 400 / 3 - max 0 (max 0 (L - 50 / 3)))"
  shows "150 * c \<le> max 0 ((n + 1) * (50 / 3) + 400 / 3 - max 0 L)"
  using assms by argo

lemma pulseTriggerCount_bound:
  "150 * real (pulseTriggerCount (1 / 60) 0 m audios)
     \<le> max 0 (real (length audios) * (50 / 3) + 400 / 3 - max 0 (priv_beatLockout m))"
proof (induction audios arbitrary: m)
  case Nil
  then show ?case by simp
next
  case (Cons audio audios)
  let ?m' = "update 0 audio (1 / 60) 0 m"
  note IH = Cons.IH[of ?m']
  show ?case
  proof (cases "pulseTriggers audio m")
    case True
    then have l: "priv_beatLockout m \<le> 0" by (simp add: pulseTriggers_def)
    have l': "priv_beatLockout ?m' = 400 / 3"
      using True by (simp add: update_beatLockout)
    have "150 * real (pulseTriggerCount (1 / 60) 0 ?m' audios) \<le> real (length audios) * (50 / 3)"
      using IH unfolding l' by simp
    then show ?thesis using True l by (simp add: field_simps)
  next
    case False
    have l': "priv_beatLockout ?m' = max 0 (priv_beatLockout m - 50 / 3)"
      using False by (simp add: update_beatLockout)
    have "150 * real (pulseTriggerCount (1 / 60) 0 ?m' audios)
        \<le> max 0 ((real (length audios) + 1) * (50 / 3) + 400 / 3 - max 0 (priv_beatLockout m))"
      using IH unfolding l' by (rule lockout_arith)
    then show ?thesis using False by (simp add: algebra_simps)
  qed
qed





text \<open>
  Claim C4, as amended.  With smoothness 0 and a tick of 1/60 s, 60 calls of \<open>update\<close> take
  the pulse trigger branch at most 7 times, whatever the coordinator's state at the start and
  whatever the audio snapshots hold: while the 150 ms countdown is positive no call triggers.
\<close>

theorem pulse_lockout_bound:
  assumes "length audios = 60"
  shows "pulseTriggerCount (1 / 60) 0 m audios \<le> 7"
proof -
  have "150 * real (pulseTriggerCount (1 / 60) 0 m audios)
      \<le> max 0 (real (length audios) * (50 / 3) + 400 / 3 - max 0 (priv_beatLockout m))"
    by (rule pulseTriggerCount_bound)
  also have "\<dots> \<le> 3400 / 3" using assms by (simp add: max_def)
  finally have "real (pulseTriggerCount (1 / 60) 0 m audios) < 8" by simp
  then show ?thesis by simp
qed

theorem pulse_lockout_bound_witness:
  "length (replicate 60 afterOnset) = 60
   \<and> pulseTriggerCount (1 / 60) 0 MotionCoordinator_new (replicate 60 afterOnset) \<le> 7"
  using pulse_lockout_bound[of "replicate 60 afterOnset" MotionCoordinator_new] by simp

section \<open>A run with four beats\<close>


















section \<open>A first call on a frame with one narrow peak\<close>



























end
